theory Spec2Isabelle
  imports Main "HOL-Library.Word"
begin

section \<open>Data model (engine.hxx)\<close>

type_synonym byte = "8 word"
type_synonym GLuint = "32 word"

text \<open>
  A \<open>float\<close> is carried around but never computed with: it is modelled by its object
  representation, the four bytes it occupies in memory, in memory order.
\<close>

datatype float = Float byte byte byte byte

text \<open>
  \<open>struct vertex\<close>: nine \<open>float\<close> members x, y, z, r, g, b, a, tx, ty, in this order.
  The selectors carry a prefix because the one-letter member names would capture the
  variables of every later statement.
\<close>

datatype vertex =
  Vertex (v_x: float) (v_y: float) (v_z: float)
         (v_r: float) (v_g: float) (v_b: float) (v_a: float)
         (v_tx: float) (v_ty: float)

text \<open>\<open>struct triangle\<close>: the array \<open>vertex v[3]\<close>, filled by the constructor.\<close>

datatype triangle = Triangle (v0: vertex) (v1: vertex) (v2: vertex)

text \<open>
  \<open>struct event\<close>: two anonymous enums and the mouse position. The key enumerators
  carry the suffix of the source's own \<open>undefined_key\<close>, since \<open>top\<close> is a constant of HOL.
\<close>

datatype event_type = pressed | reliased | quit | mouse_motion | mouse_click

datatype event_key =
  left_key | right_key | top_key | bottom_key | enter_key | escape_key | space_key
  | undefined_key

record event =
  etype :: event_type
  ekey :: event_key
  mouse_x :: int
  mouse_y :: int

text \<open>\<open>class texture_impl\<close> (engine.cxx), the one implementation of \<open>texture\<close>.\<close>

record texture_impl =
  texture_width :: "16 word"
  texture_height :: "16 word"
  textrure_handle :: GLuint

definition get_width :: "texture_impl \<Rightarrow> 16 word" where
  "get_width t = texture_width t"

definition get_height :: "texture_impl \<Rightarrow> 16 word" where
  "get_height t = texture_height t"

definition get_handle :: "texture_impl \<Rightarrow> GLuint" where
  "get_handle t = textrure_handle t"

section \<open>The platform: SDL events, GL calls, the image decoder\<close>

text \<open>
  \<open>SDL_Event\<close> is a union; the record holds the members \<open>read_input\<close> reads:
  \<open>e.type\<close> (Uint32), \<open>e.key.keysym.sym\<close>, \<open>e.motion.x\<close> and \<open>e.motion.y\<close> (Sint32, only
  copied and compared, hence \<open>int\<close>).
\<close>

record SDL_Event =
  sdl_type :: "32 word"
  key_keysym_sym :: int
  motion_x :: int
  motion_y :: int

text \<open>The event types and key codes, with the values of SDL2's headers.\<close>

definition SDL_QUIT :: "32 word" where "SDL_QUIT = 0x100"
definition SDL_KEYDOWN :: "32 word" where "SDL_KEYDOWN = 0x300"
definition SDL_KEYUP :: "32 word" where "SDL_KEYUP = 0x301"
definition SDL_MOUSEMOTION :: "32 word" where "SDL_MOUSEMOTION = 0x400"
definition SDL_MOUSEBUTTONDOWN :: "32 word" where "SDL_MOUSEBUTTONDOWN = 0x401"
definition SDL_MOUSEBUTTONUP :: "32 word" where "SDL_MOUSEBUTTONUP = 0x402"

definition SDLK_RETURN :: int where "SDLK_RETURN = 13"
definition SDLK_ESCAPE :: int where "SDLK_ESCAPE = 27"
definition SDLK_SPACE :: int where "SDLK_SPACE = 32"
definition SDLK_a :: int where "SDLK_a = 97"
definition SDLK_d :: int where "SDLK_d = 100"
definition SDLK_s :: int where "SDLK_s = 115"
definition SDLK_w :: int where "SDLK_w = 119"
definition SDLK_RIGHT :: int where "SDLK_RIGHT = 1073741903"
definition SDLK_LEFT :: int where "SDLK_LEFT = 1073741904"
definition SDLK_DOWN :: int where "SDLK_DOWN = 1073741905"
definition SDLK_UP :: int where "SDLK_UP = 1073741906"
definition SDLK_KP_ENTER :: int where "SDLK_KP_ENTER = 1073741912"

datatype gl_enum =
  GL_VERTEX_SHADER | GL_FRAGMENT_SHADER | GL_COMPILE_STATUS | GL_LINK_STATUS
  | GL_INFO_LOG_LENGTH | GL_TEXTURE_2D | GL_TEXTURE_WRAP_S | GL_TEXTURE_WRAP_T
  | GL_TEXTURE_MIN_FILTER | GL_TEXTURE_MAG_FILTER | GL_REPEAT | GL_LINEAR | GL_RGBA
  | GL_UNSIGNED_BYTE | GL_ARRAY_BUFFER | GL_DYNAMIC_DRAW | GL_FLOAT | GL_TRIANGLES

definition GL_TEXTURE0 :: GLuint where "GL_TEXTURE0 = 0x84C0"

text \<open>
  One constructor for each GL entry point the engine calls, with the arguments of the
  call. A buffer upload carries the bytes the GL copies out of client memory.
\<close>

datatype gl_call =
  GlCreateShader gl_enum
  | GlShaderSource GLuint string
  | GlCompileShader GLuint
  | GlGetShaderiv GLuint gl_enum
  | GlGetShaderInfoLog GLuint int
  | GlDeleteShader GLuint
  | GlCreateProgram
  | GlAttachShader GLuint GLuint
  | GlBindAttribLocation GLuint GLuint string
  | GlLinkProgram GLuint
  | GlGetProgramiv GLuint gl_enum
  | GlGetProgramInfoLog GLuint int
  | GlDeleteProgram GLuint
  | GlUseProgram GLuint
  | GlGetUniformLocation GLuint string
  | GlActiveTexture GLuint
  | GlBindTexture gl_enum GLuint
  | GlUniform1i int int
  | GlGenTextures nat
  | GlTexParameteri gl_enum gl_enum gl_enum
  | GlTexImage2D gl_enum int gl_enum int int int gl_enum gl_enum "byte list"
  | GlGenerateMipmap gl_enum
  | GlBufferData gl_enum nat "byte list" gl_enum
  | GlBufferSubData gl_enum nat nat "byte list"
  | GlEnableVertexAttribArray GLuint
  | GlVertexAttribPointer GLuint int gl_enum bool nat nat
  | GlDrawArrays gl_enum int int
  | GlDisableVertexAttribArray GLuint

text \<open>What is written on \<open>std::cerr\<close>.\<close>

datatype out_item = Text string | Num int | Endl

text \<open>
  A member access into the storage of a \<open>std::vector\<close>: \<open>Deref i n\<close> is \<open>p->\<close> applied
  to the slot of index \<open>i\<close> of a storage that holds \<open>n\<close> elements. The slot holds an
  object only when \<open>i < n\<close>.
\<close>

datatype mem_event = Deref nat nat

fun in_bounds :: "mem_event \<Rightarrow> bool" where
  "in_bounds (Deref i n) = (i < n)"

text \<open>
  The state the engine works on: the GL calls issued so far (oldest first), the member
  accesses into vector storage, the output on \<open>std::cerr\<close>, the pending SDL events and
  the texture objects allocated with \<open>new\<close> (the object at position \<open>i\<close> has address
  \<open>i + 1\<close>; address 0 is \<open>nullptr\<close>).
\<close>

record world =
  gl_calls :: "gl_call list"
  mem_log :: "mem_event list"
  cerr :: "out_item list"
  sdl_queue :: "SDL_Event list"
  heap_textures :: "texture_impl list"

text \<open>
  What the engine cannot decide itself is a parameter: the answers of the GL driver, each
  a function of the calls issued so far (the answered call last), and the image decoder.
  \<open>gl_new_name\<close> answers \<open>glCreateShader\<close>, \<open>glCreateProgram\<close> and \<open>glGenTextures\<close>,
  \<open>gl_status\<close> the compile and link status queries, \<open>gl_info_log_length\<close> the
  \<open>GL_INFO_LOG_LENGTH\<close> queries (never negative in the GL, so the conversion to
  \<open>size_t\<close> keeps it) and \<open>gl_info_log\<close> is the text of the log.
  \<open>stbi_load\<close> gives the pixel buffer (\<open>None\<close> for a null pointer) and the values of the
  locals \<open>width\<close>, \<open>height\<close>, \<open>nrChannels\<close> after the call; they are declared without an
  initialiser, so after a failed decode they are whatever the decoder and the stack left.
\<close>

record platform =
  gl_new_name :: "gl_call list \<Rightarrow> GLuint"
  gl_status :: "gl_call list \<Rightarrow> int"
  gl_info_log_length :: "gl_call list \<Rightarrow> nat"
  gl_info_log :: "gl_call list \<Rightarrow> string"
  gl_uniform_location :: "gl_call list \<Rightarrow> int"
  stbi_load :: "string \<Rightarrow> byte list option \<times> int \<times> int \<times> int"

definition gl :: "gl_call \<Rightarrow> world \<Rightarrow> world" where
  "gl c w = w\<lparr>gl_calls := gl_calls w @ [c]\<rparr>"

definition cerr_out :: "out_item list \<Rightarrow> world \<Rightarrow> world" where
  "cerr_out items w = w\<lparr>cerr := cerr w @ items\<rparr>"

section \<open>Input: \<open>engine_impl::read_input\<close>\<close>

text \<open>
  \<open>SDL_PollEvent\<close> does not wait: it removes the oldest pending event and returns it, or
  returns 0 when nothing is pending.
\<close>

definition SDL_PollEvent :: "world \<Rightarrow> SDL_Event option \<times> world" where
  "SDL_PollEvent w =
     (case sdl_queue w of
        [] \<Rightarrow> (None, w)
      | e # q \<Rightarrow> (Some e, w\<lparr>sdl_queue := q\<rparr>))"

text \<open>The chain of comparisons on \<open>e.key.keysym.sym\<close>, in the source's order.\<close>

definition translate_key :: "int \<Rightarrow> event_key" where
  "translate_key k =
     (if k = SDLK_w \<or> k = SDLK_UP then top_key
      else if k = SDLK_s \<or> k = SDLK_DOWN then bottom_key
      else if k = SDLK_a \<or> k = SDLK_LEFT then left_key
      else if k = SDLK_d \<or> k = SDLK_RIGHT then right_key
      else if k = SDLK_ESCAPE then escape_key
      else if k = SDLK_SPACE then space_key
      else if k = SDLK_KP_ENTER \<or> k = SDLK_RETURN then enter_key
      else undefined_key)"

text \<open>
  \<open>read_input\<close> takes the caller's event record by reference: the model returns the
  boolean result, the record as the call leaves it, and the new state.
\<close>

definition read_input :: "event \<Rightarrow> world \<Rightarrow> (bool \<times> event) \<times> world" where
  "read_input ev w =
     (case SDL_PollEvent w of
        (None, w') \<Rightarrow> ((False, ev), w')
      | (Some e, w') \<Rightarrow>
          if sdl_type e = SDL_QUIT then ((True, ev\<lparr>etype := quit\<rparr>), w')
          else if sdl_type e = SDL_MOUSEMOTION then
            ((True, ev\<lparr>etype := mouse_motion, mouse_x := motion_x e, mouse_y := motion_y e\<rparr>), w')
          else if sdl_type e = SDL_MOUSEBUTTONUP then
            ((True, ev\<lparr>etype := mouse_click, mouse_x := motion_x e, mouse_y := motion_y e\<rparr>), w')
          else if sdl_type e = SDL_KEYDOWN \<or> sdl_type e = SDL_KEYUP then
            ((True, ev\<lparr>etype := (if sdl_type e = SDL_KEYDOWN then pressed else reliased),
                        ekey := translate_key (key_keysym_sym e)\<rparr>), w')
          else ((False, ev), w'))"


section \<open>Shader programs: \<open>class shader\<close>\<close>

record shader =
  vertex_shader :: GLuint
  fragment_shader :: GLuint
  program :: GLuint

definition glCreateShader :: "platform \<Rightarrow> gl_enum \<Rightarrow> world \<Rightarrow> GLuint \<times> world" where
  "glCreateShader P ty w =
     (let w = gl (GlCreateShader ty) w in (gl_new_name P (gl_calls w), w))"

definition glCreateProgram :: "platform \<Rightarrow> world \<Rightarrow> GLuint \<times> world" where
  "glCreateProgram P w =
     (let w = gl GlCreateProgram w in (gl_new_name P (gl_calls w), w))"

definition glGetShaderiv :: "platform \<Rightarrow> GLuint \<Rightarrow> gl_enum \<Rightarrow> world \<Rightarrow> int \<times> world" where
  "glGetShaderiv P s pname w =
     (let w = gl (GlGetShaderiv s pname) w
      in (if pname = GL_INFO_LOG_LENGTH then int (gl_info_log_length P (gl_calls w))
          else gl_status P (gl_calls w), w))"

definition glGetProgramiv :: "platform \<Rightarrow> GLuint \<Rightarrow> gl_enum \<Rightarrow> world \<Rightarrow> int \<times> world" where
  "glGetProgramiv P p pname w =
     (let w = gl (GlGetProgramiv p pname) w
      in (if pname = GL_INFO_LOG_LENGTH then int (gl_info_log_length P (gl_calls w))
          else gl_status P (gl_calls w), w))"

text \<open>
  The two log queries fill a buffer of \<open>bufSize\<close> characters: the log, cut to leave room
  for the terminating zero.
\<close>

definition glGetShaderInfoLog :: "platform \<Rightarrow> GLuint \<Rightarrow> int \<Rightarrow> world \<Rightarrow> string \<times> world" where
  "glGetShaderInfoLog P s bufSize w =
     (let w = gl (GlGetShaderInfoLog s bufSize) w
      in (take (nat (bufSize - 1)) (gl_info_log P (gl_calls w)), w))"

definition glGetProgramInfoLog :: "platform \<Rightarrow> GLuint \<Rightarrow> int \<Rightarrow> world \<Rightarrow> string \<times> world" where
  "glGetProgramInfoLog P p bufSize w =
     (let w = gl (GlGetProgramInfoLog p bufSize) w
      in (take (nat (bufSize - 1)) (gl_info_log P (gl_calls w)), w))"

text \<open>
  \<open>init_shader\<close>: the log is read into the local vector \<open>info\<close>, which goes out of scope
  at the \<open>return false\<close>.
\<close>

definition init_shader :: "platform \<Rightarrow> GLuint \<Rightarrow> string \<Rightarrow> world \<Rightarrow> bool \<times> world" where
  "init_shader P s shader_src w =
     (let w = gl (GlShaderSource s shader_src) w;
          w = gl (GlCompileShader s) w;
          (compile_status, w) = glGetShaderiv P s GL_COMPILE_STATUS w
      in if compile_status = 0 then
           (let (info_len, w) = glGetShaderiv P s GL_INFO_LOG_LENGTH w;
                (info, w) = glGetShaderInfoLog P s info_len w;
                w = gl (GlDeleteShader s) w
            in (False, w))
         else (True, w))"

text \<open>The loop over \<open>attributes\<close> in the constructor.\<close>

fun bind_attributes :: "GLuint \<Rightarrow> (GLuint \<times> string) list \<Rightarrow> world \<Rightarrow> world" where
  "bind_attributes p [] w = w"
| "bind_attributes p ((loc, attr_name) # attrs) w =
     bind_attributes p attrs (gl (GlBindAttribLocation p loc attr_name) w)"

text \<open>
  The constructor \<open>shader::shader\<close>. It has no way to fail: there is no exception and
  no status member, so the result is always a shader object.
\<close>

definition shader_ctor ::
  "platform \<Rightarrow> string \<Rightarrow> string \<Rightarrow> (GLuint \<times> string) list \<Rightarrow> world \<Rightarrow> shader \<times> world" where
  "shader_ctor P vertex_shader_src fragment_shader_src attributes w =
     (let (vs, w) = glCreateShader P GL_VERTEX_SHADER w;
          (ok, w) = init_shader P vs vertex_shader_src w;
          w = (if \<not> ok then
                 cerr_out [Text ''error: Failed to create vertex shader ( engine.cxx:  )'', Endl] w
               else w);
          (fs, w) = glCreateShader P GL_FRAGMENT_SHADER w;
          (ok, w) = init_shader P fs fragment_shader_src w;
          w = (if \<not> ok then
                 cerr_out [Text ''error: Failed to create fragment shader ( engine.cxx:  )'', Endl] w
               else w);
          (prog, w) = glCreateProgram P w;
          w = (if prog = 0 then
                 cerr_out [Text ''error: Failed to create program ( engine.cxx:  )'', Endl] w
               else w);
          w = gl (GlAttachShader prog vs) w;
          w = gl (GlAttachShader prog fs) w;
          w = bind_attributes prog attributes w;
          w = gl (GlLinkProgram prog) w;
          (linked_status, w) = glGetProgramiv P prog GL_LINK_STATUS w;
          w = (if linked_status = 0 then
                 (let (infoLen, w) = glGetProgramiv P prog GL_INFO_LOG_LENGTH w;
                      (infoLog, w) = glGetProgramInfoLog P prog infoLen w;
                      w = gl (GlDeleteProgram prog) w
                  in cerr_out [Text ''error: Failed to link program ( engine.cxx:  )'',
                               Num infoLen, Endl] w)
               else w)
      in (\<lparr>vertex_shader = vs, fragment_shader = fs, program = prog\<rparr>, w))"

definition use :: "shader \<Rightarrow> world \<Rightarrow> world" where
  "use sh w = gl (GlUseProgram (program sh)) w"

text \<open>
  \<open>set_uniform\<close>: \<open>GL_TEXTURE0 + t.get_handle()\<close> is unsigned 32-bit arithmetic, and the
  value given to \<open>glUniform1i\<close> is converted to the signed \<open>GLint\<close>.
\<close>

definition set_uniform :: "platform \<Rightarrow> shader \<Rightarrow> string \<Rightarrow> texture_impl \<Rightarrow> world \<Rightarrow> world" where
  "set_uniform P sh attr t w =
     (let w = gl (GlGetUniformLocation (program sh) attr) w;
          location = gl_uniform_location P (gl_calls w);
          w = gl (GlActiveTexture (GL_TEXTURE0 + get_handle t)) w;
          w = gl (GlBindTexture GL_TEXTURE_2D (get_handle t)) w
      in gl (GlUniform1i location (sint (0 + get_handle t))) w)"

section \<open>Textures: \<open>engine_impl::create_texture\<close>\<close>

definition glGenTextures :: "platform \<Rightarrow> nat \<Rightarrow> world \<Rightarrow> GLuint \<times> world" where
  "glGenTextures P n w =
     (let w = gl (GlGenTextures n) w in (gl_new_name P (gl_calls w), w))"

text \<open>
  \<open>new texture_impl(width, height, handle)\<close>: the object is appended to the heap and
  its address returned. Addresses start at 1, so the result is never \<open>nullptr\<close>.
  The allocation itself is taken to succeed.
\<close>

definition new_texture_impl ::
  "16 word \<Rightarrow> 16 word \<Rightarrow> GLuint \<Rightarrow> world \<Rightarrow> nat \<times> world" where
  "new_texture_impl width height handle w =
     (length (heap_textures w) + 1,
      w\<lparr>heap_textures := heap_textures w @
          [\<lparr>texture_width = width, texture_height = height, textrure_handle = handle\<rparr>]\<rparr>)"

text \<open>The object a texture pointer refers to, if it refers to one.\<close>

definition texture_at :: "world \<Rightarrow> nat \<Rightarrow> texture_impl option" where
  "texture_at w p =
     (if 0 < p \<and> p \<le> length (heap_textures w) then Some (heap_textures w ! (p - 1))
      else None)"

text \<open>
  \<open>create_texture\<close>. The handle is generated, bound and configured before the decoder
  runs. The \<open>int\<close> locals \<open>width\<close> and \<open>height\<close> are narrowed to \<open>uint16_t\<close> by the
  constructor of \<open>texture_impl\<close>, whether or not the decoder has set them.
  \<open>stbi_image_free\<close> releases the pixel buffer and changes nothing of the state.
\<close>

definition create_texture :: "platform \<Rightarrow> string \<Rightarrow> world \<Rightarrow> nat \<times> world" where
  "create_texture P path w =
     (let (texture, w) = glGenTextures P 1 w;
          w = gl (GlBindTexture GL_TEXTURE_2D texture) w;
          w = gl (GlTexParameteri GL_TEXTURE_2D GL_TEXTURE_WRAP_S GL_REPEAT) w;
          w = gl (GlTexParameteri GL_TEXTURE_2D GL_TEXTURE_WRAP_T GL_REPEAT) w;
          w = gl (GlTexParameteri GL_TEXTURE_2D GL_TEXTURE_MIN_FILTER GL_LINEAR) w;
          w = gl (GlTexParameteri GL_TEXTURE_2D GL_TEXTURE_MAG_FILTER GL_LINEAR) w;
          (data, width, height, nrChannels) = stbi_load P path;
          w = (case data of
                 Some pixels \<Rightarrow>
                   gl (GlGenerateMipmap GL_TEXTURE_2D)
                     (gl (GlTexImage2D GL_TEXTURE_2D 0 GL_RGBA width height 0 GL_RGBA
                            GL_UNSIGNED_BYTE pixels) w)
               | None \<Rightarrow>
                   cerr_out [Text ''error: Failed to load texture ( engine.cxx: )'', Endl] w)
      in new_texture_impl (word_of_int width) (word_of_int height) texture w)"

section \<open>Drawing: the two \<open>engine_impl::render\<close>\<close>

datatype error = out_of_range | out_of_bounds_read

text \<open>\<open>std::vector::at\<close> throws \<open>std::out_of_range\<close> for an index past the end.\<close>

definition vector_at :: "'a list \<Rightarrow> nat \<Rightarrow> error + 'a" where
  "vector_at xs i = (if i < length xs then Inr (xs ! i) else Inl out_of_range)"

text \<open>
  The member of \<open>engine_impl\<close> the draw paths use. \<open>init\<close> pushes two shader objects:
  the untextured program at index 0, the textured one at index 1.
\<close>

record engine_impl =
  shaders :: "shader list"

text \<open>
  The memory image of the vertex buffer: the triangles one after the other, each
  its three vertices, each its nine floats.
\<close>

definition sizeof_float :: nat where
  "sizeof_float = 4"

definition sizeof_vertex :: nat where
  "sizeof_vertex = 9 * sizeof_float"

fun float_bytes :: "float \<Rightarrow> byte list" where
  "float_bytes (Float b0 b1 b2 b3) = [b0, b1, b2, b3]"

definition vertex_bytes :: "vertex \<Rightarrow> byte list" where
  "vertex_bytes v =
     concat (map float_bytes [v_x v, v_y v, v_z v, v_r v, v_g v, v_b v, v_a v, v_tx v, v_ty v])"

definition triangle_vertices :: "triangle \<Rightarrow> vertex list" where
  "triangle_vertices t = [v0 t, v1 t, v2 t]"

definition storage_bytes :: "triangle list \<Rightarrow> byte list" where
  "storage_bytes vertex_buffer =
     concat (map vertex_bytes (concat (map triangle_vertices vertex_buffer)))"

text \<open>
  \<open>&vertex_buffer.data()->v[0]\<close>: the member access goes through the first slot of the
  storage, whatever the size of the vector; the address it gives is the start of the
  storage (byte offset 0).
\<close>

definition first_vertex_ptr :: "triangle list \<Rightarrow> world \<Rightarrow> nat \<times> world" where
  "first_vertex_ptr vertex_buffer w =
     (0, w\<lparr>mem_log := mem_log w @ [Deref 0 (length vertex_buffer)]\<rparr>)"

text \<open>
  What the GL copies when it is given a pointer into the storage and a byte count. A
  copy that would leave the storage is an out-of-bounds read.
\<close>

definition client_read :: "byte list \<Rightarrow> nat \<Rightarrow> nat \<Rightarrow> error + byte list" where
  "client_read mem ptr n =
     (if ptr + n \<le> length mem then Inr (take n (drop ptr mem)) else Inl out_of_bounds_read)"

text \<open>
  \<open>static_cast<uint32_t>((vertex_buffer.size() * 3) * sizeof(uchiha::vertex))\<close> keeps the
  low 32 bits, and \<open>static_cast<GLsizei>(vertex_buffer.size() * 3)\<close> reads the low 32
  bits as a signed number.
\<close>

definition data_size_in_bytes :: "triangle list \<Rightarrow> 32 word" where
  "data_size_in_bytes vertex_buffer = of_nat ((length vertex_buffer * 3) * sizeof_vertex)"

definition num_of_vertexes :: "triangle list \<Rightarrow> int" where
  "num_of_vertexes vertex_buffer = sint (of_nat (length vertex_buffer * 3) :: 32 word)"

definition gl_seq :: "gl_call list \<Rightarrow> world \<Rightarrow> world" where
  "gl_seq cs w = fold gl cs w"

definition render :: "engine_impl \<Rightarrow> triangle list \<Rightarrow> world \<Rightarrow> error + world" where
  "render eng vertex_buffer w =
     (case vector_at (shaders eng) 0 of
        Inl e \<Rightarrow> Inl e
      | Inr sh \<Rightarrow>
          (let w = use sh w;
               (t, w) = first_vertex_ptr vertex_buffer w;
               n = unat (data_size_in_bytes vertex_buffer)
           in case client_read (storage_bytes vertex_buffer) t n of
                Inl e \<Rightarrow> Inl e
              | Inr bytes \<Rightarrow>
                  Inr (gl_seq
                    [GlBufferData GL_ARRAY_BUFFER n bytes GL_DYNAMIC_DRAW,
                     GlBufferSubData GL_ARRAY_BUFFER 0 n bytes,
                     GlEnableVertexAttribArray 0,
                     GlVertexAttribPointer 0 3 GL_FLOAT False sizeof_vertex 0,
                     GlEnableVertexAttribArray 1,
                     GlVertexAttribPointer 1 4 GL_FLOAT False sizeof_vertex (sizeof_float * 3),
                     GlDrawArrays GL_TRIANGLES 0 (num_of_vertexes vertex_buffer),
                     GlDisableVertexAttribArray 0,
                     GlDisableVertexAttribArray 1] w)))"

definition render_textured ::
  "platform \<Rightarrow> engine_impl \<Rightarrow> triangle list \<Rightarrow> texture_impl \<Rightarrow> world \<Rightarrow> error + world" where
  "render_textured P eng vertex_buffer tx w =
     (case vector_at (shaders eng) 1 of
        Inl e \<Rightarrow> Inl e
      | Inr sh \<Rightarrow>
          (let w = use sh w;
               w = set_uniform P sh ''s_texture'' tx w;
               (t, w) = first_vertex_ptr vertex_buffer w;
               n = unat (data_size_in_bytes vertex_buffer)
           in case client_read (storage_bytes vertex_buffer) t n of
                Inl e \<Rightarrow> Inl e
              | Inr bytes \<Rightarrow>
                  Inr (gl_seq
                    [GlBufferData GL_ARRAY_BUFFER n bytes GL_DYNAMIC_DRAW,
                     GlBufferSubData GL_ARRAY_BUFFER 0 n bytes,
                     GlEnableVertexAttribArray 0,
                     GlVertexAttribPointer 0 3 GL_FLOAT False sizeof_vertex 0,
                     GlEnableVertexAttribArray 1,
                     GlVertexAttribPointer 1 4 GL_FLOAT False sizeof_vertex (sizeof_float * 3),
                     GlEnableVertexAttribArray 2,
                     GlVertexAttribPointer 2 2 GL_FLOAT False sizeof_vertex (sizeof_float * 7),
                     GlDrawArrays GL_TRIANGLES 0 (num_of_vertexes vertex_buffer),
                     GlDisableVertexAttribArray 0,
                     GlDisableVertexAttribArray 1,
                     GlDisableVertexAttribArray 2] w)))"

section \<open>Observations on a run\<close>

text \<open>The GL calls and the \<open>std::cerr\<close> output a step adds, from the state before and after.\<close>

definition new_calls :: "world \<Rightarrow> world \<Rightarrow> gl_call list" where
  "new_calls w w' = drop (length (gl_calls w)) (gl_calls w')"

definition new_cerr :: "world \<Rightarrow> world \<Rightarrow> out_item list" where
  "new_cerr w w' = drop (length (cerr w)) (cerr w')"

text \<open>
  The attribute configuration in a list of calls: slot, number of components, component
  type, normalisation flag, stride and byte offset of each \<open>glVertexAttribPointer\<close>.
\<close>

fun attrib_pointers ::
  "gl_call list \<Rightarrow> (GLuint \<times> int \<times> gl_enum \<times> bool \<times> nat \<times> nat) list" where
  "attrib_pointers [] = []"
| "attrib_pointers (GlVertexAttribPointer i n ty nrm stride off # cs) =
     (i, n, ty, nrm, stride, off) # attrib_pointers cs"
| "attrib_pointers (c # cs) = attrib_pointers cs"

text \<open>The byte strings handed to the GL buffer, one for each upload call.\<close>

fun uploaded :: "gl_call list \<Rightarrow> byte list list" where
  "uploaded [] = []"
| "uploaded (GlBufferData target n bytes usage # cs) = bytes # uploaded cs"
| "uploaded (GlBufferSubData target off n bytes # cs) = bytes # uploaded cs"
| "uploaded (c # cs) = uploaded cs"

text \<open>The flattened vertex stream of a triangle sequence.\<close>

definition vertex_stream :: "triangle list \<Rightarrow> vertex list" where
  "vertex_stream vertex_buffer = concat (map triangle_vertices vertex_buffer)"

fun is_link :: "gl_call \<Rightarrow> bool" where
  "is_link (GlLinkProgram p) = True"
| "is_link c = False"

fun is_bind :: "gl_call \<Rightarrow> bool" where
  "is_bind (GlBindAttribLocation p loc attr_name) = True"
| "is_bind c = False"

definition no_bind_or_link :: "gl_call list \<Rightarrow> bool" where
  "no_bind_or_link cs = (\<forall>c \<in> set cs. \<not> is_link c \<and> \<not> is_bind c)"

text \<open>
  The driver rejects the source: it answers 0 to the \<open>GL_COMPILE_STATUS\<close> query that
  \<open>init_shader\<close> makes after the calls \<open>h\<close>.
\<close>

definition compile_failed :: "platform \<Rightarrow> GLuint \<Rightarrow> string \<Rightarrow> gl_call list \<Rightarrow> bool" where
  "compile_failed P s shader_src h =
     (gl_status P (h @ [GlShaderSource s shader_src, GlCompileShader s,
                        GlGetShaderiv s GL_COMPILE_STATUS]) = 0)"

text \<open>All that the shader constructor can write on \<open>std::cerr\<close>.\<close>

definition fixed_messages :: "out_item set" where
  "fixed_messages =
     {Text ''error: Failed to create vertex shader ( engine.cxx:  )'',
      Text ''error: Failed to create fragment shader ( engine.cxx:  )'',
      Text ''error: Failed to create program ( engine.cxx:  )'',
      Text ''error: Failed to link program ( engine.cxx:  )'', Endl} \<union> range Num"

text \<open>The calls with which \<open>create_texture\<close> generates and configures a handle.\<close>

definition configure_calls :: "GLuint \<Rightarrow> gl_call list" where
  "configure_calls handle =
     [GlGenTextures 1, GlBindTexture GL_TEXTURE_2D handle,
      GlTexParameteri GL_TEXTURE_2D GL_TEXTURE_WRAP_S GL_REPEAT,
      GlTexParameteri GL_TEXTURE_2D GL_TEXTURE_WRAP_T GL_REPEAT,
      GlTexParameteri GL_TEXTURE_2D GL_TEXTURE_MIN_FILTER GL_LINEAR,
      GlTexParameteri GL_TEXTURE_2D GL_TEXTURE_MAG_FILTER GL_LINEAR]"

text \<open>The event types for which \<open>read_input\<close> has a branch.\<close>

definition handled_types :: "32 word set" where
  "handled_types = {SDL_QUIT, SDL_MOUSEMOTION, SDL_MOUSEBUTTONUP, SDL_KEYDOWN, SDL_KEYUP}"

section \<open>Concrete inputs\<close>

definition world0 :: world where
  "world0 = \<lparr>gl_calls = [], mem_log = [], cerr = [], sdl_queue = [], heap_textures = []\<rparr>"

definition event0 :: event where
  "event0 = \<lparr>etype = quit, ekey = undefined_key, mouse_x = 0, mouse_y = 0\<rparr>"

definition key_w_down :: SDL_Event where
  "key_w_down = \<lparr>sdl_type = SDL_KEYDOWN, key_keysym_sym = SDLK_w, motion_x = 0, motion_y = 0\<rparr>"

definition button_down :: SDL_Event where
  "button_down = \<lparr>sdl_type = SDL_MOUSEBUTTONDOWN, key_keysym_sym = 0, motion_x = 10, motion_y = 20\<rparr>"

definition vtx :: "byte \<Rightarrow> vertex" where
  "vtx b = Vertex (Float b 0 0 0) (Float 0 0 0 0) (Float 0 0 0 0) (Float 0 0 128 63)
                  (Float 0 0 0 0) (Float 0 0 0 0) (Float 0 0 128 63) (Float 0 0 0 0)
                  (Float 0 0 0 0)"

definition tri0 :: triangle where
  "tri0 = Triangle (vtx 1) (vtx 2) (vtx 3)"

definition engine0 :: engine_impl where
  "engine0 = \<lparr>shaders = [\<lparr>vertex_shader = 1, fragment_shader = 2, program = 3\<rparr>,
                          \<lparr>vertex_shader = 4, fragment_shader = 5, program = 6\<rparr>]\<rparr>"

definition texture0 :: texture_impl where
  "texture0 = \<lparr>texture_width = 64, texture_height = 64, textrure_handle = 1\<rparr>"

text \<open>A driver and decoder that accept everything, and a pair that reject everything.\<close>

definition platform0 :: platform where
  "platform0 = \<lparr>gl_new_name = (\<lambda>cs. of_nat (length cs)), gl_status = (\<lambda>cs. 1),
                 gl_info_log_length = (\<lambda>cs. 0), gl_info_log = (\<lambda>cs. []),
                 gl_uniform_location = (\<lambda>cs. 0),
                 stbi_load = (\<lambda>path. (Some [255, 255, 255, 255], 1, 1, 4))\<rparr>"

definition platform_bad :: platform where
  "platform_bad = \<lparr>gl_new_name = (\<lambda>cs. of_nat (length cs)), gl_status = (\<lambda>cs. 0),
                    gl_info_log_length = (\<lambda>cs. 18),
                    gl_info_log = (\<lambda>cs. ''0:1: syntax error''),
                    gl_uniform_location = (\<lambda>cs. - 1),
                    stbi_load = (\<lambda>path. (None, 5, 7, 0))\<rparr>"

text \<open>
  A driver that rejects the source \<open>''bad''\<close>, whichever shader it is given to, and links
  every program: with a rejected fragment shader the program holds the vertex shader
  alone, which a desktop GL links.
\<close>

fun compile_query_of :: "gl_call \<Rightarrow> GLuint option" where
  "compile_query_of (GlGetShaderiv s GL_COMPILE_STATUS) = Some s"
| "compile_query_of c = None"

definition platform_frag_bad :: platform where
  "platform_frag_bad =
     \<lparr>gl_new_name = (\<lambda>cs. of_nat (length cs)),
      gl_status = (\<lambda>cs. case compile_query_of (last cs) of
                           Some s \<Rightarrow> if GlShaderSource s ''bad'' \<in> set cs then 0 else 1
                         | None \<Rightarrow> 1),
      gl_info_log_length = (\<lambda>cs. 18),
      gl_info_log = (\<lambda>cs. ''0:1: syntax error''),
      gl_uniform_location = (\<lambda>cs. 0),
      stbi_load = (\<lambda>path. (Some [255, 255, 255, 255], 1, 1, 4))\<rparr>"

text \<open>A vertex buffer of 39768216 triangles: 4294967328 bytes, 32 more than \<open>2 ^ 32\<close>.\<close>

definition big_buffer :: "triangle list" where
  "big_buffer = replicate 39768216 tri0"

section \<open>Basic facts about the state\<close>

lemmas sdl_event_defs =
  SDL_QUIT_def SDL_KEYDOWN_def SDL_KEYUP_def SDL_MOUSEMOTION_def SDL_MOUSEBUTTONDOWN_def
  SDL_MOUSEBUTTONUP_def

lemmas sdlk_defs =
  SDLK_RETURN_def SDLK_ESCAPE_def SDLK_SPACE_def SDLK_a_def SDLK_d_def SDLK_s_def SDLK_w_def
  SDLK_RIGHT_def SDLK_LEFT_def SDLK_DOWN_def SDLK_UP_def SDLK_KP_ENTER_def

lemma gl_simps:
  "gl_calls (gl c w) = gl_calls w @ [c]" "cerr (gl c w) = cerr w" "mem_log (gl c w) = mem_log w"
  "sdl_queue (gl c w) = sdl_queue w" "heap_textures (gl c w) = heap_textures w"
  by (simp_all add: gl_def)

lemma cerr_out_simps:
  "gl_calls (cerr_out xs w) = gl_calls w" "cerr (cerr_out xs w) = cerr w @ xs"
  "mem_log (cerr_out xs w) = mem_log w" "sdl_queue (cerr_out xs w) = sdl_queue w"
  "heap_textures (cerr_out xs w) = heap_textures w"
  by (simp_all add: cerr_out_def)

lemma gl_seq_eq: "gl_seq cs w = w\<lparr>gl_calls := gl_calls w @ cs\<rparr>"
  unfolding gl_seq_def
  by (induction cs arbitrary: w) (simp_all add: gl_def)

section \<open>Input polling\<close>

lemma translate_key_table:
  "(k = SDLK_w \<or> k = SDLK_UP \<longrightarrow> translate_key k = top_key) \<and>
   (k = SDLK_s \<or> k = SDLK_DOWN \<longrightarrow> translate_key k = bottom_key) \<and>
   (k = SDLK_a \<or> k = SDLK_LEFT \<longrightarrow> translate_key k = left_key) \<and>
   (k = SDLK_d \<or> k = SDLK_RIGHT \<longrightarrow> translate_key k = right_key) \<and>
   (k = SDLK_ESCAPE \<longrightarrow> translate_key k = escape_key) \<and>
   (k = SDLK_SPACE \<longrightarrow> translate_key k = space_key) \<and>
   (k = SDLK_KP_ENTER \<or> k = SDLK_RETURN \<longrightarrow> translate_key k = enter_key) \<and>
   (k \<notin> {SDLK_w, SDLK_UP, SDLK_s, SDLK_DOWN, SDLK_a, SDLK_LEFT, SDLK_d, SDLK_RIGHT,
          SDLK_ESCAPE, SDLK_SPACE, SDLK_KP_ENTER, SDLK_RETURN} \<longrightarrow>
      translate_key k = undefined_key)"
  by (simp add: translate_key_def sdlk_defs)

lemma read_input_Nil: "sdl_queue w = [] \<Longrightarrow> read_input ev w = ((False, ev), w)"
  by (simp add: read_input_def SDL_PollEvent_def)

lemma read_input_Cons:
  "sdl_queue w = e # q \<Longrightarrow>
   read_input ev w =
     (if sdl_type e = SDL_QUIT then ((True, ev\<lparr>etype := quit\<rparr>), w\<lparr>sdl_queue := q\<rparr>)
      else if sdl_type e = SDL_MOUSEMOTION then
        ((True, ev\<lparr>etype := mouse_motion, mouse_x := motion_x e, mouse_y := motion_y e\<rparr>),
         w\<lparr>sdl_queue := q\<rparr>)
      else if sdl_type e = SDL_MOUSEBUTTONUP then
        ((True, ev\<lparr>etype := mouse_click, mouse_x := motion_x e, mouse_y := motion_y e\<rparr>),
         w\<lparr>sdl_queue := q\<rparr>)
      else if sdl_type e = SDL_KEYDOWN \<or> sdl_type e = SDL_KEYUP then
        ((True, ev\<lparr>etype := (if sdl_type e = SDL_KEYDOWN then pressed else reliased),
                    ekey := translate_key (key_keysym_sym e)\<rparr>), w\<lparr>sdl_queue := q\<rparr>)
      else ((False, ev), w\<lparr>sdl_queue := q\<rparr>))"
  by (simp add: read_input_def SDL_PollEvent_def)

lemma read_input_queue: "sdl_queue (snd (read_input ev w)) = drop 1 (sdl_queue w)"
  by (cases "sdl_queue w") (simp_all add: read_input_Nil read_input_Cons)

text \<open>
  Claim C6. A pending key-down or key-up event is always translated, and in one way only:
  \<open>read_input\<close> returns true, the event type is \<open>pressed\<close> for key-down and \<open>reliased\<close>
  for key-up, and the key is top for W or up-arrow, bottom for S or down-arrow, left for
  A or left-arrow, right for D or right-arrow, escape for Escape, space for Space, enter
  for either Enter key, and \<open>undefined_key\<close> for every other key code; the mouse fields of
  the caller's record are kept.
\<close>

theorem read_input_key_event:
  assumes q: "sdl_queue w = e # q"
    and ty: "sdl_type e = SDL_KEYDOWN \<or> sdl_type e = SDL_KEYUP"
  shows "\<exists>ev'. read_input ev w = ((True, ev'), w\<lparr>sdl_queue := q\<rparr>) \<and>
     (sdl_type e = SDL_KEYDOWN \<longrightarrow> etype ev' = pressed) \<and>
     (sdl_type e = SDL_KEYUP \<longrightarrow> etype ev' = reliased) \<and>
     (key_keysym_sym e = SDLK_w \<or> key_keysym_sym e = SDLK_UP \<longrightarrow> ekey ev' = top_key) \<and>
     (key_keysym_sym e = SDLK_s \<or> key_keysym_sym e = SDLK_DOWN \<longrightarrow> ekey ev' = bottom_key) \<and>
     (key_keysym_sym e = SDLK_a \<or> key_keysym_sym e = SDLK_LEFT \<longrightarrow> ekey ev' = left_key) \<and>
     (key_keysym_sym e = SDLK_d \<or> key_keysym_sym e = SDLK_RIGHT \<longrightarrow> ekey ev' = right_key) \<and>
     (key_keysym_sym e = SDLK_ESCAPE \<longrightarrow> ekey ev' = escape_key) \<and>
     (key_keysym_sym e = SDLK_SPACE \<longrightarrow> ekey ev' = space_key) \<and>
     (key_keysym_sym e = SDLK_KP_ENTER \<or> key_keysym_sym e = SDLK_RETURN \<longrightarrow>
        ekey ev' = enter_key) \<and>
     (key_keysym_sym e \<notin> {SDLK_w, SDLK_UP, SDLK_s, SDLK_DOWN, SDLK_a, SDLK_LEFT, SDLK_d,
          SDLK_RIGHT, SDLK_ESCAPE, SDLK_SPACE, SDLK_KP_ENTER, SDLK_RETURN} \<longrightarrow>
        ekey ev' = undefined_key) \<and>
     mouse_x ev' = mouse_x ev \<and> mouse_y ev' = mouse_y ev"
proof -
  have ne: "sdl_type e \<noteq> SDL_QUIT" "sdl_type e \<noteq> SDL_MOUSEMOTION"
    "sdl_type e \<noteq> SDL_MOUSEBUTTONUP"
    using ty by (auto simp: sdl_event_defs)
  have kd: "SDL_KEYUP \<noteq> SDL_KEYDOWN" by (simp add: sdl_event_defs)
  let ?ev = "ev\<lparr>etype := (if sdl_type e = SDL_KEYDOWN then pressed else reliased),
                 ekey := translate_key (key_keysym_sym e)\<rparr>"
  have run: "read_input ev w = ((True, ?ev), w\<lparr>sdl_queue := q\<rparr>)"
    using ty ne by (simp add: read_input_Cons [OF q])
  have ty': "(sdl_type e = SDL_KEYDOWN \<longrightarrow> etype ?ev = pressed) \<and>
      (sdl_type e = SDL_KEYUP \<longrightarrow> etype ?ev = reliased)"
    using kd by auto
  have m: "mouse_x ?ev = mouse_x ev" "mouse_y ?ev = mouse_y ev" by simp_all
  from run ty' translate_key_table [of "key_keysym_sym e"] m show ?thesis
    by (intro exI [of _ ?ev]) simp
qed

theorem read_input_key_event_witness:
  "sdl_queue (world0\<lparr>sdl_queue := [key_w_down]\<rparr>) = [key_w_down] \<and>
   sdl_type key_w_down = SDL_KEYDOWN \<and>
   fst (fst (read_input event0 (world0\<lparr>sdl_queue := [key_w_down]\<rparr>))) = True \<and>
   etype (snd (fst (read_input event0 (world0\<lparr>sdl_queue := [key_w_down]\<rparr>)))) = pressed \<and>
   ekey (snd (fst (read_input event0 (world0\<lparr>sdl_queue := [key_w_down]\<rparr>)))) = top_key"
proof -
  have q: "sdl_queue (world0\<lparr>sdl_queue := [key_w_down]\<rparr>) = [key_w_down]" by simp
  have ty: "sdl_type key_w_down = SDL_KEYDOWN \<or> sdl_type key_w_down = SDL_KEYUP"
    by (simp add: key_w_down_def)
  have k: "key_keysym_sym key_w_down = SDLK_w" "sdl_type key_w_down = SDL_KEYDOWN"
    by (simp_all add: key_w_down_def)
  from read_input_key_event [OF q ty, of event0] show ?thesis
    by (elim exE conjE) (simp add: k)
qed

text \<open>
  Claim C8, as the code has it. \<open>read_input\<close> is a total function that removes at most
  one pending event (the oldest) per call. It reports that no event is available exactly
  when the queue is empty or the event it has just removed is of a type other than quit,
  mouse motion, mouse button up, key down and key up; such an event is dropped.
\<close>

theorem read_input_false_iff:
  "(\<not> fst (fst (read_input ev w))) =
     (sdl_queue w = [] \<or> (\<exists>e q. sdl_queue w = e # q \<and> sdl_type e \<notin> handled_types)) \<and>
   sdl_queue (snd (read_input ev w)) = drop 1 (sdl_queue w)"
proof (cases "sdl_queue w")
  case Nil
  then show ?thesis by (simp add: read_input_Nil)
next
  case (Cons e q)
  then show ?thesis by (simp add: read_input_Cons [OF Cons] handled_types_def)
qed

theorem read_input_false_iff_witness:
  "fst (fst (read_input event0 (world0\<lparr>sdl_queue := [button_down, key_w_down]\<rparr>))) = False \<and>
   sdl_queue (snd (read_input event0 (world0\<lparr>sdl_queue := [button_down, key_w_down]\<rparr>))) =
     [key_w_down]"
  using read_input_false_iff [of event0 "world0\<lparr>sdl_queue := [button_down, key_w_down]\<rparr>"]
  by (simp add: handled_types_def button_down_def sdl_event_defs)

text \<open>
  The claim as the spec states it fails: with a mouse-button-down event pending, the queue
  is not empty and \<open>read_input\<close> reports that no event is available.
\<close>

theorem read_input_nonempty_counterexample:
  "sdl_queue (world0\<lparr>sdl_queue := [button_down]\<rparr>) \<noteq> [] \<and>
   fst (fst (read_input event0 (world0\<lparr>sdl_queue := [button_down]\<rparr>))) = False"
  by (simp add: read_input_Cons [of _ button_down "[]"] button_down_def sdl_event_defs)

text \<open>
  Claim C10. Whenever \<open>read_input\<close> returns false, the caller's event record is the one
  it was given: no field is written on a path that returns false.
\<close>

theorem read_input_false_unchanged:
  "\<not> fst (fst (read_input ev w)) \<Longrightarrow> snd (fst (read_input ev w)) = ev"
  by (cases "sdl_queue w") (auto simp: read_input_Nil read_input_Cons split: if_splits)

theorem read_input_false_unchanged_witness:
  "\<not> fst (fst (read_input event0 (world0\<lparr>sdl_queue := [button_down]\<rparr>))) \<and>
   snd (fst (read_input event0 (world0\<lparr>sdl_queue := [button_down]\<rparr>))) = event0"
proof -
  have f: "\<not> fst (fst (read_input event0 (world0\<lparr>sdl_queue := [button_down]\<rparr>)))"
    by (simp add: read_input_Cons [of _ button_down "[]"] button_down_def sdl_event_defs)
  from read_input_false_unchanged [OF f] f show ?thesis by simp
qed

section \<open>The memory image of a vertex buffer\<close>

lemma length_float_bytes: "length (float_bytes f) = sizeof_float"
  by (cases f) (simp add: sizeof_float_def)

lemma length_vertex_bytes: "length (vertex_bytes v) = sizeof_vertex"
  by (simp add: vertex_bytes_def sizeof_vertex_def length_float_bytes)

lemma length_concat_const:
  "(\<And>x. x \<in> set xs \<Longrightarrow> length (f x) = k) \<Longrightarrow> length (concat (map f xs)) = length xs * k"
  by (induction xs) simp_all

lemma vertex_stream_Cons: "vertex_stream (t # ts) = v0 t # v1 t # v2 t # vertex_stream ts"
  by (simp add: vertex_stream_def triangle_vertices_def)

lemma length_vertex_stream: "length (vertex_stream vb) = 3 * length vb"
  by (induction vb) (simp_all add: vertex_stream_Cons, simp add: vertex_stream_def)

lemma vertex_stream_nth:
  "i < length vb \<Longrightarrow>
   vertex_stream vb ! (3 * i) = v0 (vb ! i) \<and>
   vertex_stream vb ! (3 * i + 1) = v1 (vb ! i) \<and>
   vertex_stream vb ! (3 * i + 2) = v2 (vb ! i)"
proof (induction vb arbitrary: i)
  case Nil
  then show ?case by simp
next
  case (Cons t ts)
  show ?case
  proof (cases i)
    case 0
    then show ?thesis by (simp add: vertex_stream_Cons)
  next
    case (Suc k)
    with Cons.prems have "k < length ts" by simp
    from Cons.IH [OF this] show ?thesis
      by (simp add: Suc vertex_stream_Cons numeral_3_eq_3)
  qed
qed

lemma storage_bytes_stream: "storage_bytes vb = concat (map vertex_bytes (vertex_stream vb))"
  by (simp add: storage_bytes_def vertex_stream_def)

lemma length_storage_bytes: "length (storage_bytes vb) = (length vb * 3) * sizeof_vertex"
proof -
  have "length (storage_bytes vb) = length (vertex_stream vb) * sizeof_vertex"
    unfolding storage_bytes_stream
    using length_concat_const [of "vertex_stream vb" vertex_bytes sizeof_vertex]
    by (simp add: length_vertex_bytes)
  then show ?thesis by (simp add: length_vertex_stream mult.commute)
qed

lemma unat_data_size:
  "unat (data_size_in_bytes vb) = ((length vb * 3) * sizeof_vertex) mod 2 ^ 32"
  unfolding data_size_in_bytes_def by (simp only: unat_of_nat len_of_numeral_defs) simp

text \<open>The byte count never exceeds the storage, so the copy stays inside it.\<close>

lemma client_read_storage:
  "client_read (storage_bytes vb) 0 (unat (data_size_in_bytes vb)) =
     Inr (take (unat (data_size_in_bytes vb)) (storage_bytes vb))"
proof -
  have "unat (data_size_in_bytes vb) \<le> length (storage_bytes vb)"
    unfolding unat_data_size length_storage_bytes by (rule mod_less_eq_dividend)
  then show ?thesis by (simp add: client_read_def)
qed

lemma take_all_storage:
  assumes "(length vb * 3) * sizeof_vertex < 2 ^ 32"
  shows "take (unat (data_size_in_bytes vb)) (storage_bytes vb) = storage_bytes vb"
  using assms by (simp add: unat_data_size length_storage_bytes)

lemma num_of_vertexes_small:
  assumes "(length vb * 3) * sizeof_vertex < 2 ^ 32"
  shows "num_of_vertexes vb = int (3 * length vb)"
proof -
  have "length vb * 3 < 2 ^ 31"
    using assms by (simp add: sizeof_vertex_def sizeof_float_def)
  then have "signed_take_bit 31 (int (length vb * 3)) = int (length vb * 3)"
    by (intro signed_take_bit_int_eq_self) simp_all
  then have "sint (of_nat (length vb * 3) :: 32 word) = int (length vb * 3)"
    by (simp only: signed_of_nat) simp
  then show ?thesis by (simp add: num_of_vertexes_def mult.commute)
qed

section \<open>The draw paths\<close>

lemma render_eq:
  assumes "shaders eng \<noteq> []"
  shows "render eng vb w =
     Inr (w\<lparr>gl_calls := gl_calls w @
              [GlUseProgram (program (shaders eng ! 0)),
               GlBufferData GL_ARRAY_BUFFER (unat (data_size_in_bytes vb))
                 (take (unat (data_size_in_bytes vb)) (storage_bytes vb)) GL_DYNAMIC_DRAW,
               GlBufferSubData GL_ARRAY_BUFFER 0 (unat (data_size_in_bytes vb))
                 (take (unat (data_size_in_bytes vb)) (storage_bytes vb)),
               GlEnableVertexAttribArray 0,
               GlVertexAttribPointer 0 3 GL_FLOAT False 36 0,
               GlEnableVertexAttribArray 1,
               GlVertexAttribPointer 1 4 GL_FLOAT False 36 12,
               GlDrawArrays GL_TRIANGLES 0 (num_of_vertexes vb),
               GlDisableVertexAttribArray 0,
               GlDisableVertexAttribArray 1],
            mem_log := mem_log w @ [Deref 0 (length vb)]\<rparr>)"
  using assms
  by (simp add: render_def vector_at_def use_def gl_def first_vertex_ptr_def client_read_storage
      gl_seq_eq Let_def sizeof_vertex_def sizeof_float_def)

lemma set_uniform_eq:
  "set_uniform P sh attr t w =
     w\<lparr>gl_calls := gl_calls w @
         [GlGetUniformLocation (program sh) attr,
          GlActiveTexture (GL_TEXTURE0 + get_handle t),
          GlBindTexture GL_TEXTURE_2D (get_handle t),
          GlUniform1i (gl_uniform_location P (gl_calls w @ [GlGetUniformLocation (program sh) attr]))
            (sint (get_handle t))]\<rparr>"
  by (simp add: set_uniform_def gl_def Let_def)

lemma render_textured_eq:
  assumes "1 < length (shaders eng)"
  shows "render_textured P eng vb tx w =
     Inr (w\<lparr>gl_calls := gl_calls w @
              [GlUseProgram (program (shaders eng ! 1)),
               GlGetUniformLocation (program (shaders eng ! 1)) ''s_texture'',
               GlActiveTexture (GL_TEXTURE0 + get_handle tx),
               GlBindTexture GL_TEXTURE_2D (get_handle tx),
               GlUniform1i
                 (gl_uniform_location P (gl_calls w @
                    [GlUseProgram (program (shaders eng ! 1)),
                     GlGetUniformLocation (program (shaders eng ! 1)) ''s_texture'']))
                 (sint (get_handle tx)),
               GlBufferData GL_ARRAY_BUFFER (unat (data_size_in_bytes vb))
                 (take (unat (data_size_in_bytes vb)) (storage_bytes vb)) GL_DYNAMIC_DRAW,
               GlBufferSubData GL_ARRAY_BUFFER 0 (unat (data_size_in_bytes vb))
                 (take (unat (data_size_in_bytes vb)) (storage_bytes vb)),
               GlEnableVertexAttribArray 0,
               GlVertexAttribPointer 0 3 GL_FLOAT False 36 0,
               GlEnableVertexAttribArray 1,
               GlVertexAttribPointer 1 4 GL_FLOAT False 36 12,
               GlEnableVertexAttribArray 2,
               GlVertexAttribPointer 2 2 GL_FLOAT False 36 28,
               GlDrawArrays GL_TRIANGLES 0 (num_of_vertexes vb),
               GlDisableVertexAttribArray 0,
               GlDisableVertexAttribArray 1,
               GlDisableVertexAttribArray 2],
            mem_log := mem_log w @ [Deref 0 (length vb)]\<rparr>)"
  using assms
  by (simp add: render_textured_def vector_at_def use_def gl_def first_vertex_ptr_def
      client_read_storage gl_seq_eq set_uniform_eq Let_def sizeof_vertex_def sizeof_float_def)

lemma engine0_shaders: "2 \<le> length (shaders engine0)"
  by (simp add: engine0_def)

text \<open>
  Before \<open>init\<close> has pushed the shader objects, \<open>shaders.at\<close> throws and nothing is drawn.
  No draw ever reads past the storage of the vertex buffer.
\<close>

lemma render_without_shaders:
  "shaders eng = [] \<Longrightarrow>
   render eng vb w = Inl out_of_range \<and> render_textured P eng vb tx w = Inl out_of_range"
  by (simp add: render_def render_textured_def vector_at_def)

lemma render_no_out_of_bounds_read:
  "render eng vb w \<noteq> Inl out_of_bounds_read \<and>
   render_textured P eng vb tx w \<noteq> Inl out_of_bounds_read"
proof -
  have "render eng vb w \<noteq> Inl out_of_bounds_read"
    by (cases "shaders eng = []") (simp_all add: render_without_shaders render_eq)
  moreover have "render_textured P eng vb tx w \<noteq> Inl out_of_bounds_read"
  proof (cases "1 < length (shaders eng)")
    case True
    then show ?thesis by (simp add: render_textured_eq)
  next
    case False
    then show ?thesis by (simp add: render_textured_def vector_at_def)
  qed
  ultimately show ?thesis by simp
qed

text \<open>
  Claim C4. On an initialised engine both draw paths complete, whatever the vertex
  buffer, the texture and the state, and configure slot 0 as 3 floats at byte offset 0 and
  slot 1 as 4 floats at byte offset 12; the textured path alone configures slot 2, as 2
  floats at byte offset 28. The stride is 36 bytes, the size of a vertex (nine 4-byte
  floats), in every one of these calls.
\<close>

theorem attribute_layout:
  assumes "2 \<le> length (shaders eng)"
  shows "\<exists>w1 w2. render eng vb w = Inr w1 \<and> render_textured P eng vb tx w = Inr w2 \<and>
     attrib_pointers (new_calls w w1) =
       [(0, 3, GL_FLOAT, False, 36, 0), (1, 4, GL_FLOAT, False, 36, 12)] \<and>
     attrib_pointers (new_calls w w2) =
       [(0, 3, GL_FLOAT, False, 36, 0), (1, 4, GL_FLOAT, False, 36, 12),
        (2, 2, GL_FLOAT, False, 36, 28)] \<and>
     sizeof_vertex = 36 \<and> sizeof_vertex = 9 * sizeof_float"
proof -
  from assms have ne: "shaders eng \<noteq> []" and two: "1 < length (shaders eng)" by auto
  show ?thesis
    unfolding render_eq [OF ne] render_textured_eq [OF two]
    by (simp add: new_calls_def sizeof_vertex_def sizeof_float_def)
qed

theorem attribute_layout_witness:
  "2 \<le> length (shaders engine0) \<and>
   (\<exists>w1 w2. render engine0 [tri0] world0 = Inr w1 \<and>
      render_textured platform0 engine0 [tri0] texture0 world0 = Inr w2 \<and>
      attrib_pointers (gl_calls w1) =
        [(0, 3, GL_FLOAT, False, 36, 0), (1, 4, GL_FLOAT, False, 36, 12)] \<and>
      attrib_pointers (gl_calls w2) =
        [(0, 3, GL_FLOAT, False, 36, 0), (1, 4, GL_FLOAT, False, 36, 12),
         (2, 2, GL_FLOAT, False, 36, 28)])"
  using attribute_layout [OF engine0_shaders, of "[tri0]" world0 platform0 texture0]
    engine0_shaders
  by (elim exE conjE) (simp add: new_calls_def world0_def)

text \<open>
  Claim C5, as the code has it. When the byte size of the vertex buffer fits in the 32-bit
  \<open>data_size_in_bytes\<close> (at most 39768215 triangles), each draw path on an initialised
  engine uploads exactly the bytes of the flattened vertex stream: \<open>3 * N\<close> vertices, the
  three vertices of each triangle one after the other, the triangles in the order of the
  sequence. Drawing the same sequence again uploads the same bytes.
\<close>

theorem upload_vertex_stream:
  assumes sh: "2 \<le> length (shaders eng)"
    and fits: "(length vb * 3) * sizeof_vertex < 2 ^ 32"
  shows "\<exists>w1 w2 w3.
     render eng vb w = Inr w1 \<and> render_textured P eng vb tx w = Inr w2 \<and>
     render eng vb w1 = Inr w3 \<and>
     uploaded (new_calls w w1) =
       [concat (map vertex_bytes (vertex_stream vb)),
        concat (map vertex_bytes (vertex_stream vb))] \<and>
     uploaded (new_calls w w2) = uploaded (new_calls w w1) \<and>
     uploaded (new_calls w1 w3) = uploaded (new_calls w w1) \<and>
     length (vertex_stream vb) = 3 * length vb \<and>
     (\<forall>i<length vb. vertex_stream vb ! (3 * i) = v0 (vb ! i) \<and>
                      vertex_stream vb ! (3 * i + 1) = v1 (vb ! i) \<and>
                      vertex_stream vb ! (3 * i + 2) = v2 (vb ! i))"
proof -
  from sh have ne: "shaders eng \<noteq> []" and two: "1 < length (shaders eng)" by auto
  have all: "take (unat (data_size_in_bytes vb)) (storage_bytes vb) =
      concat (map vertex_bytes (vertex_stream vb))"
    using take_all_storage [OF fits] by (simp add: storage_bytes_stream)
  have order: "\<forall>i<length vb. vertex_stream vb ! (3 * i) = v0 (vb ! i) \<and>
                      vertex_stream vb ! (3 * i + 1) = v1 (vb ! i) \<and>
                      vertex_stream vb ! (3 * i + 2) = v2 (vb ! i)"
    using vertex_stream_nth by blast
  show ?thesis
    unfolding render_eq [OF ne] render_textured_eq [OF two]
    using order
    by (simp add: new_calls_def all length_vertex_stream)
qed

theorem upload_vertex_stream_witness:
  "2 \<le> length (shaders engine0) \<and> (length [tri0] * 3) * sizeof_vertex < 2 ^ 32 \<and>
   (\<exists>w1. render engine0 [tri0] world0 = Inr w1 \<and>
      uploaded (gl_calls w1) =
        [concat (map vertex_bytes [vtx 1, vtx 2, vtx 3]),
         concat (map vertex_bytes [vtx 1, vtx 2, vtx 3])])"
proof -
  have fits: "(length [tri0] * 3) * sizeof_vertex < 2 ^ 32"
    by (simp add: sizeof_vertex_def sizeof_float_def)
  have st: "vertex_stream [tri0] = [vtx 1, vtx 2, vtx 3]"
    by (simp add: vertex_stream_def triangle_vertices_def tri0_def)
  from upload_vertex_stream [OF engine0_shaders fits, of world0 platform0 texture0]
  show ?thesis
    using engine0_shaders fits by (elim exE conjE) (simp add: new_calls_def world0_def st)
qed

text \<open>
  The claim as the spec states it, for every length, fails: for 39768216 triangles the
  flattened stream has 4294967328 bytes, the byte count wraps to 32, and each upload
  carries 32 bytes.
\<close>

lemma length_big_buffer: "length big_buffer = 39768216"
  by (simp only: big_buffer_def length_replicate)

theorem upload_truncated_counterexample:
  "length (concat (map vertex_bytes (vertex_stream big_buffer))) = 4294967328 \<and>
   (case render engine0 big_buffer world0 of
      Inr w' \<Rightarrow> map length (uploaded (new_calls world0 w')) = [32, 32]
    | Inl e \<Rightarrow> False)"
proof -
  have ne: "shaders engine0 \<noteq> []" by (simp add: engine0_def)
  have len: "length (storage_bytes big_buffer) = 4294967328"
    by (simp add: length_storage_bytes length_big_buffer sizeof_vertex_def sizeof_float_def)
  have sz: "unat (data_size_in_bytes big_buffer) = 32"
    by (simp add: unat_data_size length_big_buffer sizeof_vertex_def sizeof_float_def)
  show ?thesis
    unfolding render_eq [OF ne]
    using len
    by (simp add: new_calls_def world0_def sz storage_bytes_stream)
qed

text \<open>
  Claim C1, as the code has it. On an initialised engine, either draw path called with an
  empty triangle sequence completes without failure; it copies no byte out of the
  sequence's storage (both uploads are empty) and issues its usual calls, with a draw of
  zero vertices.
\<close>

theorem render_empty_sequence:
  assumes "2 \<le> length (shaders eng)"
  shows "\<exists>w1 w2. render eng [] w = Inr w1 \<and> render_textured P eng [] tx w = Inr w2 \<and>
     new_calls w w1 =
       [GlUseProgram (program (shaders eng ! 0)),
        GlBufferData GL_ARRAY_BUFFER 0 [] GL_DYNAMIC_DRAW,
        GlBufferSubData GL_ARRAY_BUFFER 0 0 [],
        GlEnableVertexAttribArray 0,
        GlVertexAttribPointer 0 3 GL_FLOAT False 36 0,
        GlEnableVertexAttribArray 1,
        GlVertexAttribPointer 1 4 GL_FLOAT False 36 12,
        GlDrawArrays GL_TRIANGLES 0 0,
        GlDisableVertexAttribArray 0,
        GlDisableVertexAttribArray 1] \<and>
     drop 5 (new_calls w w2) =
       [GlBufferData GL_ARRAY_BUFFER 0 [] GL_DYNAMIC_DRAW,
        GlBufferSubData GL_ARRAY_BUFFER 0 0 [],
        GlEnableVertexAttribArray 0,
        GlVertexAttribPointer 0 3 GL_FLOAT False 36 0,
        GlEnableVertexAttribArray 1,
        GlVertexAttribPointer 1 4 GL_FLOAT False 36 12,
        GlEnableVertexAttribArray 2,
        GlVertexAttribPointer 2 2 GL_FLOAT False 36 28,
        GlDrawArrays GL_TRIANGLES 0 0,
        GlDisableVertexAttribArray 0,
        GlDisableVertexAttribArray 1,
        GlDisableVertexAttribArray 2] \<and>
     uploaded (new_calls w w1) = [[], []] \<and> uploaded (new_calls w w2) = [[], []] \<and>
     cerr w1 = cerr w \<and> cerr w2 = cerr w"
proof -
  from assms have ne: "shaders eng \<noteq> []" and two: "1 < length (shaders eng)" by auto
  have z: "unat (data_size_in_bytes []) = 0" "num_of_vertexes [] = 0"
    by (simp_all add: data_size_in_bytes_def num_of_vertexes_def)
  show ?thesis
    unfolding render_eq [OF ne] render_textured_eq [OF two]
    by (simp add: new_calls_def z)
qed

theorem render_empty_sequence_witness:
  "2 \<le> length (shaders engine0) \<and>
   (\<exists>w1 w2. render engine0 [] world0 = Inr w1 \<and>
      render_textured platform0 engine0 [] texture0 world0 = Inr w2 \<and>
      uploaded (gl_calls w1) = [[], []] \<and> uploaded (gl_calls w2) = [[], []] \<and>
      GlDrawArrays GL_TRIANGLES 0 0 \<in> set (gl_calls w1) \<and>
      GlDrawArrays GL_TRIANGLES 0 0 \<in> set (gl_calls w2))"
proof -
  from render_empty_sequence [OF engine0_shaders, of world0 platform0 texture0]
  obtain w1 w2 where r: "render engine0 [] world0 = Inr w1"
      "render_textured platform0 engine0 [] texture0 world0 = Inr w2"
    and c1: "new_calls world0 w1 =
       [GlUseProgram (program (shaders engine0 ! 0)),
        GlBufferData GL_ARRAY_BUFFER 0 [] GL_DYNAMIC_DRAW,
        GlBufferSubData GL_ARRAY_BUFFER 0 0 [],
        GlEnableVertexAttribArray 0,
        GlVertexAttribPointer 0 3 GL_FLOAT False 36 0,
        GlEnableVertexAttribArray 1,
        GlVertexAttribPointer 1 4 GL_FLOAT False 36 12,
        GlDrawArrays GL_TRIANGLES 0 0,
        GlDisableVertexAttribArray 0,
        GlDisableVertexAttribArray 1]"
    and c2: "drop 5 (new_calls world0 w2) =
       [GlBufferData GL_ARRAY_BUFFER 0 [] GL_DYNAMIC_DRAW,
        GlBufferSubData GL_ARRAY_BUFFER 0 0 [],
        GlEnableVertexAttribArray 0,
        GlVertexAttribPointer 0 3 GL_FLOAT False 36 0,
        GlEnableVertexAttribArray 1,
        GlVertexAttribPointer 1 4 GL_FLOAT False 36 12,
        GlEnableVertexAttribArray 2,
        GlVertexAttribPointer 2 2 GL_FLOAT False 36 28,
        GlDrawArrays GL_TRIANGLES 0 0,
        GlDisableVertexAttribArray 0,
        GlDisableVertexAttribArray 1,
        GlDisableVertexAttribArray 2]"
    and u: "uploaded (new_calls world0 w1) = [[], []]" "uploaded (new_calls world0 w2) = [[], []]"
    by (elim exE conjE)
  have n: "new_calls world0 w1 = gl_calls w1" "new_calls world0 w2 = gl_calls w2"
    by (simp_all add: new_calls_def world0_def)
  have d1: "GlDrawArrays GL_TRIANGLES 0 0 \<in> set (gl_calls w1)"
    using c1 unfolding n by simp
  have "GlDrawArrays GL_TRIANGLES 0 0 \<in> set (drop 5 (gl_calls w2))"
    using c2 unfolding n by simp
  then have d2: "GlDrawArrays GL_TRIANGLES 0 0 \<in> set (gl_calls w2)"
    by (rule in_set_dropD)
  from r u d1 d2 engine0_shaders show ?thesis unfolding n by simp
qed

text \<open>
  The claim as the spec states it fails: there is no guard for the empty sequence, and
  both draw paths apply the member access \<open>data()->v[0]\<close> to slot 0 of a storage that holds
  no element.
\<close>

theorem render_empty_deref_counterexample:
  "(case render engine0 [] world0 of
      Inr w' \<Rightarrow> mem_log w' = [Deref 0 0] \<and> \<not> list_all in_bounds (mem_log w')
    | Inl e \<Rightarrow> False) \<and>
   (case render_textured platform0 engine0 [] texture0 world0 of
      Inr w' \<Rightarrow> mem_log w' = [Deref 0 0] \<and> \<not> list_all in_bounds (mem_log w')
    | Inl e \<Rightarrow> False)"
proof -
  have ne: "shaders engine0 \<noteq> []" and two: "1 < length (shaders engine0)"
    by (simp_all add: engine0_def)
  show ?thesis
    unfolding render_eq [OF ne] render_textured_eq [OF two]
    by (simp add: world0_def)
qed

section \<open>Shader construction\<close>

lemma bind_attributes_eq:
  "bind_attributes p attrs w =
     w\<lparr>gl_calls := gl_calls w @
         map (\<lambda>(loc, attr_name). GlBindAttribLocation p loc attr_name) attrs\<rparr>"
  by (induction p attrs w rule: bind_attributes.induct) (simp_all add: gl_def)

lemma glCreateShader_eq:
  "glCreateShader P ty w =
     (gl_new_name P (gl_calls w @ [GlCreateShader ty]),
      w\<lparr>gl_calls := gl_calls w @ [GlCreateShader ty]\<rparr>)"
  by (simp add: glCreateShader_def gl_def)

lemma glCreateProgram_eq:
  "glCreateProgram P w =
     (gl_new_name P (gl_calls w @ [GlCreateProgram]),
      w\<lparr>gl_calls := gl_calls w @ [GlCreateProgram]\<rparr>)"
  by (simp add: glCreateProgram_def gl_def)

lemma init_shader_ok:
  assumes "\<not> compile_failed P s src (gl_calls w)"
  shows "init_shader P s src w =
     (True, w\<lparr>gl_calls := gl_calls w @
        [GlShaderSource s src, GlCompileShader s, GlGetShaderiv s GL_COMPILE_STATUS]\<rparr>)"
  using assms
  by (simp add: init_shader_def compile_failed_def glGetShaderiv_def gl_def Let_def)

text \<open>
  On a rejected source the log is asked for and the shader deleted; nothing is written
  and nothing but \<open>false\<close> is returned.
\<close>

lemma init_shader_failed:
  assumes "compile_failed P s src (gl_calls w)"
  shows "init_shader P s src w =
     (False, w\<lparr>gl_calls := gl_calls w @
        [GlShaderSource s src, GlCompileShader s, GlGetShaderiv s GL_COMPILE_STATUS,
         GlGetShaderiv s GL_INFO_LOG_LENGTH,
         GlGetShaderInfoLog s (int (gl_info_log_length P (gl_calls w @
           [GlShaderSource s src, GlCompileShader s, GlGetShaderiv s GL_COMPILE_STATUS,
            GlGetShaderiv s GL_INFO_LOG_LENGTH]))),
         GlDeleteShader s]\<rparr>)"
  using assms
  by (simp add: init_shader_def compile_failed_def glGetShaderiv_def glGetShaderInfoLog_def
      gl_def Let_def)

lemma init_shader_eq:
  "init_shader P s src w =
     (\<not> compile_failed P s src (gl_calls w),
      w\<lparr>gl_calls := gl_calls w @
         [GlShaderSource s src, GlCompileShader s, GlGetShaderiv s GL_COMPILE_STATUS] @
         (if compile_failed P s src (gl_calls w) then
            [GlGetShaderiv s GL_INFO_LOG_LENGTH,
             GlGetShaderInfoLog s (int (gl_info_log_length P (gl_calls w @
               [GlShaderSource s src, GlCompileShader s, GlGetShaderiv s GL_COMPILE_STATUS,
                GlGetShaderiv s GL_INFO_LOG_LENGTH]))),
             GlDeleteShader s]
          else [])\<rparr>)"
  by (cases "compile_failed P s src (gl_calls w)") (simp_all add: init_shader_failed init_shader_ok)

lemma init_shader_calls:
  "\<exists>cs. init_shader P s src w =
          (\<not> compile_failed P s src (gl_calls w), w\<lparr>gl_calls := gl_calls w @ cs\<rparr>) \<and>
        no_bind_or_link cs \<and>
        (compile_failed P s src (gl_calls w) \<longrightarrow> GlDeleteShader s \<in> set cs)"
proof (cases "compile_failed P s src (gl_calls w)")
  case True
  show ?thesis
    unfolding init_shader_failed [OF True] using True
    by (intro exI conjI) (rule refl | simp add: no_bind_or_link_def)+
next
  case False
  show ?thesis
    unfolding init_shader_ok [OF False] using False
    by (intro exI conjI) (rule refl | simp add: no_bind_or_link_def)+
qed

text \<open>
  The run of the constructor, step by step: the calls before the attribute bindings, the
  bindings, the link, the calls after it, and what is written on \<open>std::cerr\<close>.
\<close>

lemma shader_ctor_trace:
  "\<exists>sh w' pre post.
     shader_ctor P vsrc fsrc attrs w = (sh, w') \<and>
     vertex_shader sh = gl_new_name P (gl_calls w @ [GlCreateShader GL_VERTEX_SHADER]) \<and>
     gl_calls w' = gl_calls w @ pre @
        map (\<lambda>(loc, attr_name). GlBindAttribLocation (program sh) loc attr_name) attrs @
        GlLinkProgram (program sh) # post \<and>
     no_bind_or_link pre \<and> no_bind_or_link post \<and>
     (\<exists>out. cerr w' = cerr w @ out \<and> set out \<subseteq> fixed_messages \<and>
        (compile_failed P (vertex_shader sh) vsrc
           (gl_calls w @ [GlCreateShader GL_VERTEX_SHADER]) \<longrightarrow>
           take 2 out = [Text ''error: Failed to create vertex shader ( engine.cxx:  )'', Endl] \<and>
           GlDeleteShader (vertex_shader sh) \<in> set pre))"
proof -
  define vs where "vs = gl_new_name P (gl_calls w @ [GlCreateShader GL_VERTEX_SHADER])"
  define w1 where "w1 = w\<lparr>gl_calls := gl_calls w @ [GlCreateShader GL_VERTEX_SHADER]\<rparr>"
  define vfail where "vfail = compile_failed P vs vsrc (gl_calls w1)"
  have s1: "glCreateShader P GL_VERTEX_SHADER w = (vs, w1)"
    by (simp add: glCreateShader_eq vs_def w1_def)
  obtain cs1 where
    s2: "init_shader P vs vsrc w1 = (\<not> vfail, w1\<lparr>gl_calls := gl_calls w1 @ cs1\<rparr>)"
    and q1: "no_bind_or_link cs1" and d1: "vfail \<longrightarrow> GlDeleteShader vs \<in> set cs1"
    unfolding vfail_def using init_shader_calls [of P vs vsrc w1] by blast
  define out1 where
    "out1 = (if vfail then [Text ''error: Failed to create vertex shader ( engine.cxx:  )'', Endl]
             else [])"
  define w2 where "w2 = w1\<lparr>gl_calls := gl_calls w1 @ cs1, cerr := cerr w1 @ out1\<rparr>"
  have s3: "(if \<not> \<not> vfail then
               cerr_out [Text ''error: Failed to create vertex shader ( engine.cxx:  )'', Endl]
                 (w1\<lparr>gl_calls := gl_calls w1 @ cs1\<rparr>)
             else w1\<lparr>gl_calls := gl_calls w1 @ cs1\<rparr>) = w2"
    by (simp add: w2_def out1_def cerr_out_def)
  define fs where "fs = gl_new_name P (gl_calls w2 @ [GlCreateShader GL_FRAGMENT_SHADER])"
  define w3 where "w3 = w2\<lparr>gl_calls := gl_calls w2 @ [GlCreateShader GL_FRAGMENT_SHADER]\<rparr>"
  define ffail where "ffail = compile_failed P fs fsrc (gl_calls w3)"
  have s4: "glCreateShader P GL_FRAGMENT_SHADER w2 = (fs, w3)"
    by (simp add: glCreateShader_eq fs_def w3_def)
  obtain cs2 where
    s5: "init_shader P fs fsrc w3 = (\<not> ffail, w3\<lparr>gl_calls := gl_calls w3 @ cs2\<rparr>)"
    and q2: "no_bind_or_link cs2"
    unfolding ffail_def using init_shader_calls [of P fs fsrc w3] by blast
  define out2 where
    "out2 = (if ffail then [Text ''error: Failed to create fragment shader ( engine.cxx:  )'', Endl]
             else [])"
  define w4 where "w4 = w3\<lparr>gl_calls := gl_calls w3 @ cs2, cerr := cerr w3 @ out2\<rparr>"
  have s6: "(if \<not> \<not> ffail then
               cerr_out [Text ''error: Failed to create fragment shader ( engine.cxx:  )'', Endl]
                 (w3\<lparr>gl_calls := gl_calls w3 @ cs2\<rparr>)
             else w3\<lparr>gl_calls := gl_calls w3 @ cs2\<rparr>) = w4"
    by (simp add: w4_def out2_def cerr_out_def)
  define prog where "prog = gl_new_name P (gl_calls w4 @ [GlCreateProgram])"
  define out3 where
    "out3 = (if prog = 0 then [Text ''error: Failed to create program ( engine.cxx:  )'', Endl]
             else [])"
  define binds where
    "binds = map (\<lambda>(loc, attr_name). GlBindAttribLocation prog loc attr_name) attrs"
  define w5 where "w5 = w4\<lparr>gl_calls := gl_calls w4 @ [GlCreateProgram], cerr := cerr w4 @ out3\<rparr>"
  have s7: "glCreateProgram P w4 = (prog, w4\<lparr>gl_calls := gl_calls w4 @ [GlCreateProgram]\<rparr>)"
    by (simp add: glCreateProgram_eq prog_def)
  have s8: "(if prog = 0 then
               cerr_out [Text ''error: Failed to create program ( engine.cxx:  )'', Endl]
                 (w4\<lparr>gl_calls := gl_calls w4 @ [GlCreateProgram]\<rparr>)
             else w4\<lparr>gl_calls := gl_calls w4 @ [GlCreateProgram]\<rparr>) = w5"
    by (simp add: w5_def out3_def cerr_out_def)
  define w6 where
    "w6 = gl (GlLinkProgram prog)
            (bind_attributes prog attrs
               (gl (GlAttachShader prog fs) (gl (GlAttachShader prog vs) w5)))"
  have c6: "gl_calls w6 = gl_calls w5 @ [GlAttachShader prog vs, GlAttachShader prog fs] @ binds @
              [GlLinkProgram prog]"
    and e6: "cerr w6 = cerr w5"
    by (simp_all add: w6_def bind_attributes_eq gl_simps binds_def)
  define ls where "ls = gl_status P (gl_calls w6 @ [GlGetProgramiv prog GL_LINK_STATUS])"
  define w6a where "w6a = gl (GlGetProgramiv prog GL_LINK_STATUS) w6"
  have s9a: "glGetProgramiv P prog GL_LINK_STATUS w6 = (ls, w6a)"
    by (simp add: glGetProgramiv_def Let_def ls_def w6a_def gl_simps)
  obtain post out4 w7 where
    s9: "(if ls = 0 then
            (let (infoLen, w) = glGetProgramiv P prog GL_INFO_LOG_LENGTH w6a;
                 (infoLog, w) = glGetProgramInfoLog P prog infoLen w;
                 w = gl (GlDeleteProgram prog) w
             in cerr_out [Text ''error: Failed to link program ( engine.cxx:  )'',
                          Num infoLen, Endl] w)
          else w6a) = w7"
    and c7: "gl_calls w7 = gl_calls w6 @ post" "no_bind_or_link post"
    and e7: "cerr w7 = cerr w6 @ out4" "set out4 \<subseteq> fixed_messages"
  proof (cases "ls = 0")
    case True
    show ?thesis
      by (rule that [of _
            "[GlGetProgramiv prog GL_LINK_STATUS, GlGetProgramiv prog GL_INFO_LOG_LENGTH,
              GlGetProgramInfoLog prog (int (gl_info_log_length P (gl_calls w6 @
                [GlGetProgramiv prog GL_LINK_STATUS, GlGetProgramiv prog GL_INFO_LOG_LENGTH]))),
              GlDeleteProgram prog]"
            "[Text ''error: Failed to link program ( engine.cxx:  )'',
              Num (int (gl_info_log_length P (gl_calls w6 @
                [GlGetProgramiv prog GL_LINK_STATUS, GlGetProgramiv prog GL_INFO_LOG_LENGTH]))),
              Endl]"])
        (rule refl |
         simp add: True w6a_def glGetProgramiv_def glGetProgramInfoLog_def gl_simps cerr_out_simps
           Let_def no_bind_or_link_def fixed_messages_def)+
  next
    case False
    show ?thesis
      by (rule that [of _ "[GlGetProgramiv prog GL_LINK_STATUS]" "[]"])
        (rule refl | simp add: False w6a_def gl_simps no_bind_or_link_def)+
  qed
  have res: "shader_ctor P vsrc fsrc attrs w =
      (\<lparr>vertex_shader = vs, fragment_shader = fs, program = prog\<rparr>, w7)"
    unfolding shader_ctor_def
    by (simp only: s1 s2 s3 s4 s5 s6 s7 s8 s9a [unfolded w6_def] s9 [unfolded Let_def]
        Let_def prod.case)
  have calls: "gl_calls w7 = gl_calls w @
      ([GlCreateShader GL_VERTEX_SHADER] @ cs1 @ [GlCreateShader GL_FRAGMENT_SHADER] @ cs2 @
       [GlCreateProgram, GlAttachShader prog vs, GlAttachShader prog fs]) @ binds @
      GlLinkProgram prog # post"
    by (simp add: c7 c6 w5_def w4_def w3_def w2_def w1_def)
  have pre: "no_bind_or_link ([GlCreateShader GL_VERTEX_SHADER] @ cs1 @
       [GlCreateShader GL_FRAGMENT_SHADER] @ cs2 @
       [GlCreateProgram, GlAttachShader prog vs, GlAttachShader prog fs])"
    using q1 q2 by (auto simp: no_bind_or_link_def)
  have out: "cerr w7 = cerr w @ (out1 @ out2 @ out3 @ out4)"
    by (simp add: e7 e6 w5_def w4_def w3_def w2_def w1_def)
  have outs: "set (out1 @ out2 @ out3 @ out4) \<subseteq> fixed_messages"
    using e7(2) by (auto simp: out1_def out2_def out3_def fixed_messages_def)
  have vf: "compile_failed P vs vsrc (gl_calls w @ [GlCreateShader GL_VERTEX_SHADER]) \<longrightarrow>
      take 2 (out1 @ out2 @ out3 @ out4) =
        [Text ''error: Failed to create vertex shader ( engine.cxx:  )'', Endl] \<and>
      GlDeleteShader vs \<in> set ([GlCreateShader GL_VERTEX_SHADER] @ cs1 @
        [GlCreateShader GL_FRAGMENT_SHADER] @ cs2 @
        [GlCreateProgram, GlAttachShader prog vs, GlAttachShader prog fs])"
    using d1 by (simp add: out1_def vfail_def w1_def)
  have sels: "vertex_shader \<lparr>vertex_shader = vs, fragment_shader = fs, program = prog\<rparr> = vs"
    "program \<lparr>vertex_shader = vs, fragment_shader = fs, program = prog\<rparr> = prog"
    by simp_all
  show ?thesis
    unfolding res
  proof (intro exI conjI)
    show "(\<lparr>vertex_shader = vs, fragment_shader = fs, program = prog\<rparr>, w7) =
        (\<lparr>vertex_shader = vs, fragment_shader = fs, program = prog\<rparr>, w7)" ..
    show "vertex_shader \<lparr>vertex_shader = vs, fragment_shader = fs, program = prog\<rparr> =
        gl_new_name P (gl_calls w @ [GlCreateShader GL_VERTEX_SHADER])"
      by (simp add: vs_def)
    show "gl_calls w7 = gl_calls w @
        ([GlCreateShader GL_VERTEX_SHADER] @ cs1 @ [GlCreateShader GL_FRAGMENT_SHADER] @ cs2 @
         [GlCreateProgram, GlAttachShader prog vs, GlAttachShader prog fs]) @
        map (\<lambda>(loc, attr_name).
               GlBindAttribLocation
                 (program \<lparr>vertex_shader = vs, fragment_shader = fs, program = prog\<rparr>)
                 loc attr_name) attrs @
        GlLinkProgram (program \<lparr>vertex_shader = vs, fragment_shader = fs, program = prog\<rparr>) #
        post"
      unfolding sels using calls by (simp only: binds_def)
    show "no_bind_or_link ([GlCreateShader GL_VERTEX_SHADER] @ cs1 @
         [GlCreateShader GL_FRAGMENT_SHADER] @ cs2 @
         [GlCreateProgram, GlAttachShader prog vs, GlAttachShader prog fs])"
      by (rule pre)
    show "no_bind_or_link post" by (rule c7)
    show "cerr w7 = cerr w @ (out1 @ out2 @ out3 @ out4)" by (rule out)
    show "set (out1 @ out2 @ out3 @ out4) \<subseteq> fixed_messages" by (rule outs)
    show "compile_failed P
          (vertex_shader \<lparr>vertex_shader = vs, fragment_shader = fs, program = prog\<rparr>) vsrc
          (gl_calls w @ [GlCreateShader GL_VERTEX_SHADER]) \<longrightarrow>
        take 2 (out1 @ out2 @ out3 @ out4) =
          [Text ''error: Failed to create vertex shader ( engine.cxx:  )'', Endl] \<and>
        GlDeleteShader
          (vertex_shader \<lparr>vertex_shader = vs, fragment_shader = fs, program = prog\<rparr>)
        \<in> set ([GlCreateShader GL_VERTEX_SHADER] @ cs1 @
            [GlCreateShader GL_FRAGMENT_SHADER] @ cs2 @
            [GlCreateProgram, GlAttachShader prog vs, GlAttachShader prog fs])"
      unfolding sels by (rule vf)
  qed
qed

lemma shader_ctor_platform0:
  "shader_ctor platform0 ''v'' ''f'' [(0, ''a_position''), (1, ''a_color'')] world0 =
     (\<lparr>vertex_shader = 1, fragment_shader = 5, program = 9\<rparr>,
      world0\<lparr>gl_calls :=
        [GlCreateShader GL_VERTEX_SHADER, GlShaderSource 1 ''v'', GlCompileShader 1,
         GlGetShaderiv 1 GL_COMPILE_STATUS, GlCreateShader GL_FRAGMENT_SHADER,
         GlShaderSource 5 ''f'', GlCompileShader 5, GlGetShaderiv 5 GL_COMPILE_STATUS,
         GlCreateProgram, GlAttachShader 9 1, GlAttachShader 9 5,
         GlBindAttribLocation 9 0 ''a_position'', GlBindAttribLocation 9 1 ''a_color'',
         GlLinkProgram 9, GlGetProgramiv 9 GL_LINK_STATUS]\<rparr>)"
  by (simp add: shader_ctor_def init_shader_def glCreateShader_def glCreateProgram_def
      glGetShaderiv_def glGetProgramiv_def gl_def platform0_def world0_def Let_def)

text \<open>
  Claim C7. In every construction of a shader program, the calls that bind the
  \<open>(index, name)\<close> pairs of the supplied list, in the order of the list, come right before
  the link of the program; no other binding and no other link is made, before or after.
\<close>

theorem attributes_bound_before_link:
  "\<exists>sh w' pre post. shader_ctor P vsrc fsrc attrs w = (sh, w') \<and>
     new_calls w w' = pre @
        map (\<lambda>(loc, attr_name). GlBindAttribLocation (program sh) loc attr_name) attrs @
        GlLinkProgram (program sh) # post \<and>
     no_bind_or_link pre \<and> no_bind_or_link post"
proof -
  from shader_ctor_trace [of P vsrc fsrc attrs w]
  obtain sh w' pre post where
    r: "shader_ctor P vsrc fsrc attrs w = (sh, w')"
    and c: "gl_calls w' = gl_calls w @ pre @
        map (\<lambda>(loc, attr_name). GlBindAttribLocation (program sh) loc attr_name) attrs @
        GlLinkProgram (program sh) # post"
    and q: "no_bind_or_link pre" "no_bind_or_link post"
    by blast
  from c have "new_calls w w' = pre @
        map (\<lambda>(loc, attr_name). GlBindAttribLocation (program sh) loc attr_name) attrs @
        GlLinkProgram (program sh) # post"
    by (simp add: new_calls_def)
  with r q show ?thesis by blast
qed

theorem attributes_bound_before_link_witness:
  "\<exists>pre post.
     gl_calls (snd (shader_ctor platform0 ''v'' ''f'' [(0, ''a_position''), (1, ''a_color'')] world0)) =
       pre @ [GlBindAttribLocation 9 0 ''a_position'', GlBindAttribLocation 9 1 ''a_color'',
              GlLinkProgram 9] @ post \<and>
     no_bind_or_link pre \<and> no_bind_or_link post"
proof -
  from attributes_bound_before_link
    [of platform0 "''v''" "''f''" "[(0, ''a_position''), (1, ''a_color'')]" world0]
  obtain sh w' pre post where
    r: "shader_ctor platform0 ''v'' ''f'' [(0, ''a_position''), (1, ''a_color'')] world0 = (sh, w')"
    and c: "new_calls world0 w' = pre @
        map (\<lambda>(loc, attr_name). GlBindAttribLocation (program sh) loc attr_name)
          [(0, ''a_position''), (1, ''a_color'')] @
        GlLinkProgram (program sh) # post"
    and q: "no_bind_or_link pre" "no_bind_or_link post"
    by blast
  from r have p: "program sh = 9" unfolding shader_ctor_platform0 by auto
  have n: "new_calls world0 w' = gl_calls w'" by (simp add: new_calls_def world0_def)
  from c have "gl_calls w' =
      pre @ [GlBindAttribLocation 9 0 ''a_position'', GlBindAttribLocation 9 1 ''a_color'',
             GlLinkProgram 9] @ post"
    unfolding n p by simp
  with q show ?thesis unfolding r by auto
qed

text \<open>
  Claim C3, as the code has it. The constructor returns no error to the caller: for every
  vertex and fragment source, rejected by the driver or not, it yields a shader object
  that holds the three handles the driver gave, for the vertex shader, the fragment shader
  and the program. For a rejected source the shader is deleted and the vertex or fragment
  shader message is written on \<open>std::cerr\<close>, and the construction goes on to attach, bind
  and link. Exactly when the link status is 0 the link message and the length of the link
  log are written and the program is deleted; otherwise the program is left as linked.
  Whatever the outcome, a draw on an engine whose first shader is the object issues
  \<open>glUseProgram\<close> on the handle it holds, and draws.
\<close>

theorem shader_failure_not_returned:
  "\<exists>sh w' h1 h2 h3 h4.
     shader_ctor P vsrc fsrc attrs w = (sh, w') \<and>
     h1 = gl_calls w @ [GlCreateShader GL_VERTEX_SHADER] \<and>
     vertex_shader sh = gl_new_name P h1 \<and>
     h2 = h1 @ [GlShaderSource (vertex_shader sh) vsrc, GlCompileShader (vertex_shader sh),
                GlGetShaderiv (vertex_shader sh) GL_COMPILE_STATUS] @
          (if compile_failed P (vertex_shader sh) vsrc h1 then
             [GlGetShaderiv (vertex_shader sh) GL_INFO_LOG_LENGTH,
              GlGetShaderInfoLog (vertex_shader sh)
                (int (gl_info_log_length P (h1 @
                   [GlShaderSource (vertex_shader sh) vsrc, GlCompileShader (vertex_shader sh),
                    GlGetShaderiv (vertex_shader sh) GL_COMPILE_STATUS,
                    GlGetShaderiv (vertex_shader sh) GL_INFO_LOG_LENGTH]))),
              GlDeleteShader (vertex_shader sh)]
           else []) @
          [GlCreateShader GL_FRAGMENT_SHADER] \<and>
     fragment_shader sh = gl_new_name P h2 \<and>
     h3 = h2 @ [GlShaderSource (fragment_shader sh) fsrc, GlCompileShader (fragment_shader sh),
                GlGetShaderiv (fragment_shader sh) GL_COMPILE_STATUS] @
          (if compile_failed P (fragment_shader sh) fsrc h2 then
             [GlGetShaderiv (fragment_shader sh) GL_INFO_LOG_LENGTH,
              GlGetShaderInfoLog (fragment_shader sh)
                (int (gl_info_log_length P (h2 @
                   [GlShaderSource (fragment_shader sh) fsrc, GlCompileShader (fragment_shader sh),
                    GlGetShaderiv (fragment_shader sh) GL_COMPILE_STATUS,
                    GlGetShaderiv (fragment_shader sh) GL_INFO_LOG_LENGTH]))),
              GlDeleteShader (fragment_shader sh)]
           else []) @
          [GlCreateProgram] \<and>
     program sh = gl_new_name P h3 \<and>
     h4 = h3 @ [GlAttachShader (program sh) (vertex_shader sh),
                GlAttachShader (program sh) (fragment_shader sh)] @
          map (\<lambda>(loc, attr_name). GlBindAttribLocation (program sh) loc attr_name) attrs @
          [GlLinkProgram (program sh), GlGetProgramiv (program sh) GL_LINK_STATUS] \<and>
     gl_calls w' = h4 @
          (if gl_status P h4 = 0 then
             [GlGetProgramiv (program sh) GL_INFO_LOG_LENGTH,
              GlGetProgramInfoLog (program sh)
                (int (gl_info_log_length P (h4 @ [GlGetProgramiv (program sh) GL_INFO_LOG_LENGTH]))),
              GlDeleteProgram (program sh)]
           else []) \<and>
     (GlDeleteProgram (program sh) \<in> set (new_calls w w')) = (gl_status P h4 = 0) \<and>
     new_cerr w w' =
          (if compile_failed P (vertex_shader sh) vsrc h1 then
             [Text ''error: Failed to create vertex shader ( engine.cxx:  )'', Endl]
           else []) @
          (if compile_failed P (fragment_shader sh) fsrc h2 then
             [Text ''error: Failed to create fragment shader ( engine.cxx:  )'', Endl]
           else []) @
          (if program sh = 0 then
             [Text ''error: Failed to create program ( engine.cxx:  )'', Endl]
           else []) @
          (if gl_status P h4 = 0 then
             [Text ''error: Failed to link program ( engine.cxx:  )'',
              Num (int (gl_info_log_length P
                     (h4 @ [GlGetProgramiv (program sh) GL_INFO_LOG_LENGTH]))),
              Endl]
           else []) \<and>
     (\<forall>rest vb w2. \<exists>w3. render \<lparr>shaders = sh # rest\<rparr> vb w2 = Inr w3 \<and>
        take 1 (new_calls w2 w3) = [GlUseProgram (program sh)] \<and>
        GlDrawArrays GL_TRIANGLES 0 (num_of_vertexes vb) \<in> set (new_calls w2 w3))"
proof -
  define h1 where "h1 = gl_calls w @ [GlCreateShader GL_VERTEX_SHADER]"
  define vs where "vs = gl_new_name P h1"
  define w1 where "w1 = w\<lparr>gl_calls := h1\<rparr>"
  have s1: "glCreateShader P GL_VERTEX_SHADER w = (vs, w1)"
    by (simp add: glCreateShader_eq vs_def w1_def h1_def)
  define ic1 where
    "ic1 = [GlShaderSource vs vsrc, GlCompileShader vs, GlGetShaderiv vs GL_COMPILE_STATUS] @
          (if compile_failed P vs vsrc h1 then
             [GlGetShaderiv vs GL_INFO_LOG_LENGTH,
              GlGetShaderInfoLog vs
                (int (gl_info_log_length P (h1 @
                   [GlShaderSource vs vsrc, GlCompileShader vs,
                    GlGetShaderiv vs GL_COMPILE_STATUS,
                    GlGetShaderiv vs GL_INFO_LOG_LENGTH]))),
              GlDeleteShader vs]
           else [])"
  define out1 where
    "out1 = (if compile_failed P vs vsrc h1 then
               [Text ''error: Failed to create vertex shader ( engine.cxx:  )'', Endl]
             else [])"
  define h2 where "h2 = h1 @ ic1 @ [GlCreateShader GL_FRAGMENT_SHADER]"
  define w2 where "w2 = w\<lparr>gl_calls := h1 @ ic1, cerr := cerr w @ out1\<rparr>"
  have s2: "init_shader P vs vsrc w1 = (\<not> compile_failed P vs vsrc h1, w1\<lparr>gl_calls := h1 @ ic1\<rparr>)"
    unfolding init_shader_eq by (simp add: w1_def ic1_def)
  have s3: "(if \<not> \<not> compile_failed P vs vsrc h1 then
               cerr_out [Text ''error: Failed to create vertex shader ( engine.cxx:  )'', Endl]
                 (w1\<lparr>gl_calls := h1 @ ic1\<rparr>)
             else w1\<lparr>gl_calls := h1 @ ic1\<rparr>) = w2"
    by (simp add: w2_def w1_def out1_def cerr_out_def)
  define fs where "fs = gl_new_name P h2"
  define w3 where "w3 = w2\<lparr>gl_calls := h2\<rparr>"
  have s4: "glCreateShader P GL_FRAGMENT_SHADER w2 = (fs, w3)"
    by (simp add: glCreateShader_eq fs_def w3_def h2_def w2_def)
  define ic2 where
    "ic2 = [GlShaderSource fs fsrc, GlCompileShader fs, GlGetShaderiv fs GL_COMPILE_STATUS] @
          (if compile_failed P fs fsrc h2 then
             [GlGetShaderiv fs GL_INFO_LOG_LENGTH,
              GlGetShaderInfoLog fs
                (int (gl_info_log_length P (h2 @
                   [GlShaderSource fs fsrc, GlCompileShader fs,
                    GlGetShaderiv fs GL_COMPILE_STATUS,
                    GlGetShaderiv fs GL_INFO_LOG_LENGTH]))),
              GlDeleteShader fs]
           else [])"
  define out2 where
    "out2 = (if compile_failed P fs fsrc h2 then
               [Text ''error: Failed to create fragment shader ( engine.cxx:  )'', Endl]
             else [])"
  define h3 where "h3 = h2 @ ic2 @ [GlCreateProgram]"
  define w4 where "w4 = w\<lparr>gl_calls := h2 @ ic2, cerr := cerr w @ out1 @ out2\<rparr>"
  have s5: "init_shader P fs fsrc w3 = (\<not> compile_failed P fs fsrc h2, w3\<lparr>gl_calls := h2 @ ic2\<rparr>)"
    unfolding init_shader_eq by (simp add: w3_def ic2_def)
  have s6: "(if \<not> \<not> compile_failed P fs fsrc h2 then
               cerr_out [Text ''error: Failed to create fragment shader ( engine.cxx:  )'', Endl]
                 (w3\<lparr>gl_calls := h2 @ ic2\<rparr>)
             else w3\<lparr>gl_calls := h2 @ ic2\<rparr>) = w4"
    by (simp add: w4_def w3_def w2_def out2_def cerr_out_def)
  define prog where "prog = gl_new_name P h3"
  define out3 where
    "out3 = (if prog = 0 then [Text ''error: Failed to create program ( engine.cxx:  )'', Endl]
             else [])"
  define w5 where "w5 = w\<lparr>gl_calls := h3, cerr := cerr w @ out1 @ out2 @ out3\<rparr>"
  have s7: "glCreateProgram P w4 = (prog, w4\<lparr>gl_calls := h3\<rparr>)"
    by (simp add: glCreateProgram_eq prog_def h3_def w4_def)
  have s8: "(if prog = 0 then
               cerr_out [Text ''error: Failed to create program ( engine.cxx:  )'', Endl]
                 (w4\<lparr>gl_calls := h3\<rparr>)
             else w4\<lparr>gl_calls := h3\<rparr>) = w5"
    by (simp add: w5_def w4_def out3_def cerr_out_def)
  define binds where
    "binds = map (\<lambda>(loc, attr_name). GlBindAttribLocation prog loc attr_name) attrs"
  define h4 where
    "h4 = h3 @ [GlAttachShader prog vs, GlAttachShader prog fs] @ binds @
          [GlLinkProgram prog, GlGetProgramiv prog GL_LINK_STATUS]"
  define w6 where "w6 = w5\<lparr>gl_calls := h4\<rparr>"
  have s9: "glGetProgramiv P prog GL_LINK_STATUS
              (gl (GlLinkProgram prog)
                 (bind_attributes prog attrs
                    (gl (GlAttachShader prog fs) (gl (GlAttachShader prog vs) w5)))) =
            (gl_status P h4, w6)"
    by (simp add: glGetProgramiv_def Let_def bind_attributes_eq gl_def w6_def h4_def w5_def
        binds_def)
  define n where "n = int (gl_info_log_length P (h4 @ [GlGetProgramiv prog GL_INFO_LOG_LENGTH]))"
  define tail where
    "tail = (if gl_status P h4 = 0 then
               [GlGetProgramiv prog GL_INFO_LOG_LENGTH, GlGetProgramInfoLog prog n,
                GlDeleteProgram prog]
             else [])"
  define out4 where
    "out4 = (if gl_status P h4 = 0 then
               [Text ''error: Failed to link program ( engine.cxx:  )'', Num n, Endl]
             else [])"
  define w7 where "w7 = w\<lparr>gl_calls := h4 @ tail, cerr := cerr w @ out1 @ out2 @ out3 @ out4\<rparr>"
  have s10: "(if gl_status P h4 = 0 then
            (case glGetProgramiv P prog GL_INFO_LOG_LENGTH w6 of
               (infoLen, w) \<Rightarrow>
                 (case glGetProgramInfoLog P prog infoLen w of
                    (infoLog, w) \<Rightarrow>
                      cerr_out [Text ''error: Failed to link program ( engine.cxx:  )'',
                                Num infoLen, Endl] (gl (GlDeleteProgram prog) w)))
          else w6) = w7"
    by (simp add: w7_def w6_def w5_def tail_def out4_def n_def glGetProgramiv_def
        glGetProgramInfoLog_def gl_def cerr_out_def Let_def)
  define sh where "sh = \<lparr>vertex_shader = vs, fragment_shader = fs, program = prog\<rparr>"
  have sels: "vertex_shader sh = vs" "fragment_shader sh = fs" "program sh = prog"
    by (simp_all add: sh_def)
  have res: "shader_ctor P vsrc fsrc attrs w = (sh, w7)"
    unfolding shader_ctor_def sh_def
    by (simp only: s1 s2 s3 s4 s5 s6 s7 s8 s9 s10 Let_def prod.case)
  have calls: "gl_calls w7 = h4 @ tail" and errs: "cerr w7 = cerr w @ out1 @ out2 @ out3 @ out4"
    by (simp_all add: w7_def)
  have new: "new_calls w w7 =
      [GlCreateShader GL_VERTEX_SHADER] @ ic1 @ [GlCreateShader GL_FRAGMENT_SHADER] @ ic2 @
      [GlCreateProgram, GlAttachShader prog vs, GlAttachShader prog fs] @ binds @
      [GlLinkProgram prog, GlGetProgramiv prog GL_LINK_STATUS] @ tail"
    by (simp add: new_calls_def calls h4_def h3_def h2_def h1_def)
  have del: "(GlDeleteProgram prog \<in> set (new_calls w w7)) = (gl_status P h4 = 0)"
    unfolding new by (auto simp: ic1_def ic2_def binds_def tail_def)
  have nerr: "new_cerr w w7 = out1 @ out2 @ out3 @ out4"
    by (simp add: new_cerr_def errs)
  have draw: "\<forall>rest vb w2. \<exists>w3. render \<lparr>shaders = sh # rest\<rparr> vb w2 = Inr w3 \<and>
        take 1 (new_calls w2 w3) = [GlUseProgram (program sh)] \<and>
        GlDrawArrays GL_TRIANGLES 0 (num_of_vertexes vb) \<in> set (new_calls w2 w3)"
    by (simp add: render_eq new_calls_def)
  show ?thesis
    apply (rule exI [of _ sh])
    apply (rule exI [of _ w7])
    apply (rule exI [of _ h1])
    apply (rule exI [of _ h2])
    apply (rule exI [of _ h3])
    apply (rule exI [of _ h4])
    apply (intro conjI)
              apply (rule res)
             apply (rule h1_def)
            apply (simp only: sels vs_def)
           apply (simp only: sels h2_def ic1_def append_assoc)
          apply (simp only: sels fs_def)
         apply (simp only: sels h3_def ic2_def append_assoc)
        apply (simp only: sels prog_def)
       apply (simp only: sels h4_def binds_def append_assoc)
      apply (simp only: sels calls tail_def n_def)
     apply (simp only: sels del)
    apply (simp only: sels nerr out1_def out2_def out3_def out4_def n_def)
    apply (rule draw)
    done
qed


theorem shader_failure_not_returned_witness:
  "vertex_shader (fst (shader_ctor platform_bad ''bad'' ''bad'' [(0, ''a_position'')] world0)) = 1 \<and>
   fragment_shader (fst (shader_ctor platform_bad ''bad'' ''bad'' [(0, ''a_position'')] world0)) = 8 \<and>
   program (fst (shader_ctor platform_bad ''bad'' ''bad'' [(0, ''a_position'')] world0)) = 15 \<and>
   cerr (snd (shader_ctor platform_bad ''bad'' ''bad'' [(0, ''a_position'')] world0)) =
     [Text ''error: Failed to create vertex shader ( engine.cxx:  )'', Endl,
      Text ''error: Failed to create fragment shader ( engine.cxx:  )'', Endl,
      Text ''error: Failed to link program ( engine.cxx:  )'', Num 18, Endl] \<and>
   GlDeleteProgram 15 \<in>
     set (gl_calls (snd (shader_ctor platform_bad ''bad'' ''bad'' [(0, ''a_position'')] world0)))"
  using shader_failure_not_returned
    [of platform_bad "''bad''" "''bad''" "[(0, ''a_position'')]" world0]
  by (elim exE conjE)
    (simp add: platform_bad_def compile_failed_def world0_def new_cerr_def new_calls_def)

text \<open>
  The claim as the spec states it fails. With a driver that rejects the fragment source,
  has a log to show and links the program, the constructor yields a shader object with
  program handle 12 and no error; the log is not in what it writes; the program is not
  deleted, and a draw on an engine holding the object uses it and draws three vertices.
\<close>

lemma shader_ctor_platform_frag_bad:
  "shader_ctor platform_frag_bad ''v'' ''bad'' [(0, ''a_position'')] world0 =
     (\<lparr>vertex_shader = 1, fragment_shader = 5, program = 12\<rparr>,
      world0\<lparr>gl_calls :=
        [GlCreateShader GL_VERTEX_SHADER, GlShaderSource 1 ''v'', GlCompileShader 1,
         GlGetShaderiv 1 GL_COMPILE_STATUS, GlCreateShader GL_FRAGMENT_SHADER,
         GlShaderSource 5 ''bad'', GlCompileShader 5, GlGetShaderiv 5 GL_COMPILE_STATUS,
         GlGetShaderiv 5 GL_INFO_LOG_LENGTH, GlGetShaderInfoLog 5 18, GlDeleteShader 5,
         GlCreateProgram, GlAttachShader 12 1, GlAttachShader 12 5,
         GlBindAttribLocation 12 0 ''a_position'', GlLinkProgram 12,
         GlGetProgramiv 12 GL_LINK_STATUS],
       cerr := [Text ''error: Failed to create fragment shader ( engine.cxx:  )'', Endl]\<rparr>)"
  by (simp add: shader_ctor_def init_shader_def glCreateShader_def glCreateProgram_def
      glGetShaderiv_def glGetProgramiv_def glGetShaderInfoLog_def glGetProgramInfoLog_def
      gl_def cerr_out_def platform_frag_bad_def world0_def Let_def)

theorem shader_failure_counterexample:
  "compile_failed platform_frag_bad 5 ''bad''
     [GlCreateShader GL_VERTEX_SHADER, GlShaderSource 1 ''v'', GlCompileShader 1,
      GlGetShaderiv 1 GL_COMPILE_STATUS, GlCreateShader GL_FRAGMENT_SHADER] \<and>
   gl_info_log platform_frag_bad [] = ''0:1: syntax error'' \<and>
   fst (shader_ctor platform_frag_bad ''v'' ''bad'' [(0, ''a_position'')] world0) =
     \<lparr>vertex_shader = 1, fragment_shader = 5, program = 12\<rparr> \<and>
   cerr (snd (shader_ctor platform_frag_bad ''v'' ''bad'' [(0, ''a_position'')] world0)) =
     [Text ''error: Failed to create fragment shader ( engine.cxx:  )'', Endl] \<and>
   gl_status platform_frag_bad
     (gl_calls (snd (shader_ctor platform_frag_bad ''v'' ''bad'' [(0, ''a_position'')] world0))) = 1 \<and>
   (case render
           \<lparr>shaders =
              [fst (shader_ctor platform_frag_bad ''v'' ''bad'' [(0, ''a_position'')] world0)]\<rparr>
           [tri0]
           (snd (shader_ctor platform_frag_bad ''v'' ''bad'' [(0, ''a_position'')] world0)) of
      Inr w' \<Rightarrow> take 1 (drop 17 (gl_calls w')) = [GlUseProgram 12] \<and>
                GlDrawArrays GL_TRIANGLES 0 3 \<in> set (gl_calls w') \<and>
                GlDeleteProgram 12 \<notin> set (gl_calls w')
    | Inl e \<Rightarrow> False)"
proof -
  have n3: "num_of_vertexes [tri0] = 3" by (simp add: num_of_vertexes_def)
  show ?thesis
    unfolding shader_ctor_platform_frag_bad
    by (simp add: render_eq n3 compile_failed_def platform_frag_bad_def world0_def)
qed

section \<open>Texture creation\<close>

lemma create_texture_eq:
  assumes "stbi_load P path = (data, width, height, nrChannels)"
  shows "create_texture P path w =
     (length (heap_textures w) + 1,
      w\<lparr>gl_calls := gl_calls w @
           configure_calls (gl_new_name P (gl_calls w @ [GlGenTextures 1])) @
           (case data of
              Some pixels \<Rightarrow>
                [GlTexImage2D GL_TEXTURE_2D 0 GL_RGBA width height 0 GL_RGBA GL_UNSIGNED_BYTE
                   pixels,
                 GlGenerateMipmap GL_TEXTURE_2D]
            | None \<Rightarrow> []),
         cerr := cerr w @
           (case data of
              Some pixels \<Rightarrow> []
            | None \<Rightarrow> [Text ''error: Failed to load texture ( engine.cxx: )'', Endl]),
         heap_textures := heap_textures w @
           [\<lparr>texture_width = word_of_int width, texture_height = word_of_int height,
             textrure_handle = gl_new_name P (gl_calls w @ [GlGenTextures 1])\<rparr>]\<rparr>)"
  using assms
  by (cases data)
    (simp_all add: create_texture_def glGenTextures_def new_texture_impl_def gl_def cerr_out_def
      configure_calls_def Let_def)

text \<open>
  Claim C9. For every path and every outcome of the decoder, a failed decode included,
  \<open>create_texture\<close> returns a pointer that is not null and was not allocated before, to
  a new texture object; the handle has been generated and configured; the object wraps
  that handle with the values left in \<open>width\<close> and \<open>height\<close>, narrowed to 16 bits; the
  objects allocated before are as they were. The result is a pointer in every case:
  there is no error value.
\<close>

theorem create_texture_always_returns_object:
  assumes dec: "stbi_load P path = (data, width, height, nrChannels)"
  shows "\<exists>p w'. create_texture P path w = (p, w') \<and>
     p \<noteq> 0 \<and> texture_at w p = None \<and>
     texture_at w' p =
       Some \<lparr>texture_width = word_of_int width, texture_height = word_of_int height,
             textrure_handle = gl_new_name P (gl_calls w @ [GlGenTextures 1])\<rparr> \<and>
     (\<forall>q. texture_at w q \<noteq> None \<longrightarrow> texture_at w' q = texture_at w q) \<and>
     take 6 (new_calls w w') = configure_calls (gl_new_name P (gl_calls w @ [GlGenTextures 1]))"
  unfolding create_texture_eq [OF dec]
  by (auto simp: texture_at_def new_calls_def configure_calls_def nth_append)

theorem create_texture_always_returns_object_witness:
  "stbi_load platform_bad ''missing.png'' = (None, 5, 7, 0) \<and>
   fst (create_texture platform_bad ''missing.png'' world0) \<noteq> 0 \<and>
   texture_at (snd (create_texture platform_bad ''missing.png'' world0))
     (fst (create_texture platform_bad ''missing.png'' world0)) =
     Some \<lparr>texture_width = 5, texture_height = 7, textrure_handle = 1\<rparr>"
proof -
  have dec: "stbi_load platform_bad ''missing.png'' = (None, 5, 7, 0)"
    by (simp add: platform_bad_def)
  have h: "gl_new_name platform_bad (gl_calls world0 @ [GlGenTextures 1]) = 1"
    by (simp add: platform_bad_def world0_def)
  from create_texture_always_returns_object [OF dec, of world0] dec
  show ?thesis unfolding h by (elim exE conjE) simp
qed

text \<open>
  Claim C2, as the code has it. When the decoder gives a null pixel buffer,
  \<open>create_texture\<close> writes an error message on \<open>std::cerr\<close>, uploads no image and
  generates no mipmaps: the only GL calls it makes are those that generate and configure
  the handle, made before the decoder runs. It still returns a texture object, which wraps
  that handle; no error is returned to the caller.
\<close>

theorem create_texture_decode_failure:
  assumes dec: "stbi_load P path = (None, width, height, nrChannels)"
  shows "\<exists>p w' t. create_texture P path w = (p, w') \<and>
     p \<noteq> 0 \<and> texture_at w' p = Some t \<and>
     textrure_handle t = gl_new_name P (gl_calls w @ [GlGenTextures 1]) \<and>
     new_calls w w' = configure_calls (textrure_handle t) \<and>
     new_cerr w w' = [Text ''error: Failed to load texture ( engine.cxx: )'', Endl]"
  unfolding create_texture_eq [OF dec]
  by (simp add: texture_at_def new_calls_def new_cerr_def)

theorem create_texture_decode_failure_witness:
  "stbi_load platform_bad ''missing.png'' = (None, 5, 7, 0) \<and>
   gl_calls (snd (create_texture platform_bad ''missing.png'' world0)) = configure_calls 1 \<and>
   cerr (snd (create_texture platform_bad ''missing.png'' world0)) =
     [Text ''error: Failed to load texture ( engine.cxx: )'', Endl]"
proof -
  have dec: "stbi_load platform_bad ''missing.png'' = (None, 5, 7, 0)"
    by (simp add: platform_bad_def)
  have h: "gl_new_name platform_bad (gl_calls world0 @ [GlGenTextures 1]) = 1"
    by (simp add: platform_bad_def world0_def)
  have n: "new_calls world0 w' = gl_calls w'" "new_cerr world0 w' = cerr w'" for w'
    by (simp_all add: new_calls_def new_cerr_def world0_def)
  from create_texture_decode_failure [OF dec, of world0] dec
  show ?thesis unfolding h n by (elim exE conjE) simp
qed

text \<open>
  The claim as the spec states it fails: after a failed decode that leaves 5 and 7 in
  \<open>width\<close> and \<open>height\<close>, a handle has been generated and a texture object of width 5 and
  height 7 is returned.
\<close>

theorem create_texture_counterexample:
  "stbi_load platform_bad ''missing.png'' = (None, 5, 7, 0) \<and>
   fst (create_texture platform_bad ''missing.png'' world0) = 1 \<and>
   texture_at (snd (create_texture platform_bad ''missing.png'' world0)) 1 =
     Some \<lparr>texture_width = 5, texture_height = 7, textrure_handle = 1\<rparr> \<and>
   GlGenTextures 1 \<in> set (gl_calls (snd (create_texture platform_bad ''missing.png'' world0)))"
proof -
  have dec: "stbi_load platform_bad ''missing.png'' = (None, 5, 7, 0)"
    by (simp add: platform_bad_def)
  show ?thesis
    unfolding create_texture_eq [OF dec]
    by (simp add: platform_bad_def world0_def texture_at_def configure_calls_def)
qed

end
